theory Spec2Isabelle
  imports Complex_Main
begin

section \<open>Values shared by the two services\<close>

text \<open>
  The repository holds two implementations of the detection pipeline: the package
  \<^verbatim>\<open>python-ml/app\<close> (detectors that query a generative model, with a statistical
  anomaly detector beside them) and the single file \<^verbatim>\<open>ml-service/main.py\<close> (pattern
  tables and a z-score function behind three endpoints). Both are embedded here, each
  function under the name it has in the source; the methods of the classes of
  \<^verbatim>\<open>python-ml/app/detectors\<close> are written \<open>Class_method\<close>.
  The HTTP layer of \<^verbatim>\<open>python-ml\<close> (\<^verbatim>\<open>app/api/v1/endpoints.py\<close>), which hands a
  detector's result on and answers an exception with status 500, is not embedded.

  What the code takes from libraries is a parameter of the embedding, collected in the
  record \<open>lib\<close> below: the rounding of float arithmetic, the statistics of
  \<^verbatim>\<open>numpy\<close> and \<^verbatim>\<open>statistics\<close>, and the string methods \<^verbatim>\<open>upper\<close>, \<^verbatim>\<open>lower\<close> and
  \<^verbatim>\<open>split\<close>. A theorem that holds for every \<open>lib\<close> holds for the libraries the program
  runs with.
\<close>

datatype exn =
    APIError
  | JSONDecodeError
  | TypeError
  | AttributeError
  | KeyError string
  | IndexError
  | ValidationError
  | StatisticsError
  | OverflowError
  | ZeroDivisionError

section \<open>Floats\<close>

text \<open>
  A Python float, which a \<^verbatim>\<open>numpy.float64\<close> also is: a finite number, an infinity or
  not-a-number. The two zeros are one value here: the code never divides by a zero and
  never prints one, so the sign of a zero is not observable. A float literal of the
  source is written as the number its decimal names.
\<close>

datatype float64 = Finite real | PosInf | NegInf | NaN

text \<open>The comparisons \<^verbatim>\<open><\<close>, \<^verbatim>\<open><=\<close> and \<^verbatim>\<open>==\<close>; each is false when an operand is
  not-a-number. \<^verbatim>\<open>x > y\<close> is \<open>flt y x\<close> and \<^verbatim>\<open>x != y\<close> is \<open>\<not> feq x y\<close>.\<close>

fun flt :: "float64 \<Rightarrow> float64 \<Rightarrow> bool" where
  "flt (Finite a) (Finite b) = (a < b)"
| "flt (Finite a) PosInf = True"
| "flt NegInf (Finite b) = True"
| "flt NegInf PosInf = True"
| "flt x y = False"

fun fle :: "float64 \<Rightarrow> float64 \<Rightarrow> bool" where
  "fle (Finite a) (Finite b) = (a \<le> b)"
| "fle (Finite a) PosInf = True"
| "fle NegInf (Finite b) = True"
| "fle NegInf PosInf = True"
| "fle PosInf PosInf = True"
| "fle NegInf NegInf = True"
| "fle x y = False"

definition feq :: "float64 \<Rightarrow> float64 \<Rightarrow> bool" where
  "feq x y \<longleftrightarrow> x \<noteq> NaN \<and> x = y"

text \<open>Negation and \<^verbatim>\<open>abs\<close> are exact.\<close>

fun fneg :: "float64 \<Rightarrow> float64" where
  "fneg (Finite a) = Finite (- a)"
| "fneg PosInf = NegInf"
| "fneg NegInf = PosInf"
| "fneg NaN = NaN"

fun fabs :: "float64 \<Rightarrow> float64" where
  "fabs (Finite a) = Finite \<bar>a\<bar>"
| "fabs PosInf = PosInf"
| "fabs NegInf = PosInf"
| "fabs NaN = NaN"

text \<open>
  The arithmetic of IEEE 754: on finite operands the exact result is rounded by \<open>rnd\<close>,
  the rounding to the nearest double, which gives an infinity when the result is out of
  range; the other cases follow the standard. \<open>fdiv\<close> is the division of
  \<^verbatim>\<open>numpy.float64\<close>, which raises nothing; \<open>py_truediv\<close> is the division of Python's
  own floats, which raises on a zero divisor.
\<close>

fun fadd :: "(real \<Rightarrow> float64) \<Rightarrow> float64 \<Rightarrow> float64 \<Rightarrow> float64" where
  "fadd rnd (Finite a) (Finite b) = rnd (a + b)"
| "fadd rnd NaN y = NaN"
| "fadd rnd x NaN = NaN"
| "fadd rnd PosInf NegInf = NaN"
| "fadd rnd NegInf PosInf = NaN"
| "fadd rnd PosInf y = PosInf"
| "fadd rnd NegInf y = NegInf"
| "fadd rnd x PosInf = PosInf"
| "fadd rnd x NegInf = NegInf"

definition fsub :: "(real \<Rightarrow> float64) \<Rightarrow> float64 \<Rightarrow> float64 \<Rightarrow> float64" where
  "fsub rnd x y = fadd rnd x (fneg y)"

text \<open>The sign of a product or quotient with an infinity.\<close>

definition signed_inf :: "bool \<Rightarrow> float64" where
  "signed_inf positive = (if positive then PosInf else NegInf)"

fun fmul :: "(real \<Rightarrow> float64) \<Rightarrow> float64 \<Rightarrow> float64 \<Rightarrow> float64" where
  "fmul rnd (Finite a) (Finite b) = rnd (a * b)"
| "fmul rnd NaN y = NaN"
| "fmul rnd x NaN = NaN"
| "fmul rnd (Finite a) PosInf = (if a = 0 then NaN else signed_inf (0 < a))"
| "fmul rnd (Finite a) NegInf = (if a = 0 then NaN else signed_inf (a < 0))"
| "fmul rnd PosInf (Finite b) = (if b = 0 then NaN else signed_inf (0 < b))"
| "fmul rnd NegInf (Finite b) = (if b = 0 then NaN else signed_inf (b < 0))"
| "fmul rnd PosInf PosInf = PosInf"
| "fmul rnd NegInf NegInf = PosInf"
| "fmul rnd PosInf NegInf = NegInf"
| "fmul rnd NegInf PosInf = NegInf"

fun fdiv :: "(real \<Rightarrow> float64) \<Rightarrow> float64 \<Rightarrow> float64 \<Rightarrow> float64" where
  "fdiv rnd (Finite a) (Finite b) =
     (if b = 0 then (if a = 0 then NaN else signed_inf (0 < a)) else rnd (a / b))"
| "fdiv rnd NaN y = NaN"
| "fdiv rnd x NaN = NaN"
| "fdiv rnd (Finite a) PosInf = Finite 0"
| "fdiv rnd (Finite a) NegInf = Finite 0"
| "fdiv rnd PosInf (Finite b) = signed_inf (0 \<le> b)"
| "fdiv rnd NegInf (Finite b) = signed_inf (b < 0)"
| "fdiv rnd x y = NaN"

definition py_truediv :: "(real \<Rightarrow> float64) \<Rightarrow> float64 \<Rightarrow> float64 \<Rightarrow> exn + float64" where
  "py_truediv rnd x y = (if feq y (Finite 0) then Inl ZeroDivisionError else Inr (fdiv rnd x y))"

text \<open>The builtin \<^verbatim>\<open>min(a, b)\<close> of two arguments: the second when it is smaller than the
  first, else the first.\<close>

definition py_min :: "float64 \<Rightarrow> float64 \<Rightarrow> float64" where
  "py_min a b = (if flt b a then b else a)"

section \<open>Transactions, reasons, events\<close>

text \<open>\<^verbatim>\<open>Transaction\<close> of \<^verbatim>\<open>app/models.py\<close>; the one of \<^verbatim>\<open>ml-service/main.py\<close> has the
  same fields without \<open>bank\<close>. The field \<^verbatim>\<open>id\<close> is \<open>tx_id\<close> here.\<close>

record Transaction =
  tx_id :: string
  description :: string
  amount :: float64
  date :: string
  bank :: "string option"

text \<open>A reason of an anomaly result. The constant messages are kept as text; the
  formatted ones keep the numbers they print, in the order of the format string
  (rendering a float with a fixed number of digits is left out).\<close>

datatype reason =
    Text string
  | AmountStdDevs float64 float64 float64
  | UnusuallyHigh float64
  | UnusuallyLow float64
  | DiffersFromConstant float64 float64

text \<open>What a detector does besides returning: the structured log lines (event name,
  the \<^verbatim>\<open>transaction_id\<close> keyword when the call has one, the error for
  \<^verbatim>\<open>logger.error\<close>) and the calls of the generative model. A prompt is kept as the
  values it is rendered from.\<close>

datatype provider = openai | anthropic

datatype prompt =
    MerchantPrompt Transaction
  | CategoryPrompt Transaction string

datatype event =
    LogInfo string "string option"
  | LogError string string exn
  | LLMCall provider prompt

section \<open>The libraries\<close>

text \<open>
  The library calls of the statistical and the pattern code, as they behave in the
  running program: \<open>rnd\<close> rounds an exact result to a float; \<open>np_mean\<close> and \<open>np_std\<close>
  are \<^verbatim>\<open>numpy.mean\<close> and \<^verbatim>\<open>numpy.std\<close>; \<open>statistics_mean\<close> and \<open>statistics_stdev\<close> are
  \<^verbatim>\<open>statistics.mean\<close> and \<^verbatim>\<open>statistics.stdev\<close>, which may raise; \<open>str_upper\<close>,
  \<open>str_lower\<close> and \<open>str_split\<close> are the methods \<^verbatim>\<open>upper\<close>, \<^verbatim>\<open>lower\<close> and \<^verbatim>\<open>split\<close>
  (without argument) of \<^verbatim>\<open>str\<close>.
\<close>

record lib =
  rnd :: "real \<Rightarrow> float64"
  np_mean :: "float64 list \<Rightarrow> float64"
  np_std :: "float64 list \<Rightarrow> float64"
  statistics_mean :: "float64 list \<Rightarrow> exn + float64"
  statistics_stdev :: "float64 list \<Rightarrow> exn + float64"
  str_upper :: "string \<Rightarrow> string"
  str_lower :: "string \<Rightarrow> string"
  str_split :: "string \<Rightarrow> string list"

text \<open>
  What the theorems below need of the rounding, where they need anything: it returns
  no not-a-number, it is monotone, it commutes with negation, and it leaves the halves
  of the integers up to \<open>2^53\<close> as they are (they are doubles). The rounding to the
  nearest double has these properties.
\<close>

definition rounding :: "(real \<Rightarrow> float64) \<Rightarrow> bool" where
  "rounding r \<longleftrightarrow>
     (\<forall>x. r x \<noteq> NaN) \<and>
     (\<forall>x y. x \<le> y \<longrightarrow> fle (r x) (r y)) \<and>
     (\<forall>x. r (- x) = fneg (r x)) \<and>
     (\<forall>n::int. \<bar>n\<bar> \<le> 2 ^ 53 \<longrightarrow> r (of_int n / 2) = Finite (of_int n / 2))"

section \<open>The anomaly detector of \<^verbatim>\<open>app/detectors/anomaly.py\<close>\<close>

record AnomalyDetection =
  transaction_id :: string
  is_anomaly :: bool
  anomaly_score :: float64
  confidence :: float64
  reasons :: "reason list"

text \<open>The constructor of the pydantic model: \<open>confidence\<close> is declared with
  \<^verbatim>\<open>ge=0.0, le=1.0\<close>, and a value outside, not-a-number included, raises; the score is
  any float.\<close>

definition AnomalyDetection_new ::
  "string \<Rightarrow> bool \<Rightarrow> float64 \<Rightarrow> float64 \<Rightarrow> reason list \<Rightarrow> exn + AnomalyDetection" where
  "AnomalyDetection_new tid a s c rs =
     (if fle (Finite 0) c \<and> fle c (Finite 1)
      then Inr \<lparr>AnomalyDetection.transaction_id = tid, is_anomaly = a, anomaly_score = s,
                confidence = c, reasons = rs\<rparr>
      else Inl ValidationError)"

text \<open>\<^verbatim>\<open>Settings.anomaly_threshold\<close> of \<^verbatim>\<open>app/config.py\<close>: the default, which the
  environment can replace; the detector takes the value in force as \<open>threshold\<close>.\<close>

definition anomaly_threshold :: float64 where
  "anomaly_threshold = Finite 2.5"

definition AnomalyDetector_detect ::
  "lib \<Rightarrow> float64 \<Rightarrow> Transaction \<Rightarrow> float64 list \<Rightarrow> event list \<times> (exn + AnomalyDetection)" where
  "AnomalyDetector_detect l threshold transaction historical_amounts =
     (let started = [LogInfo ''anomaly_detection_started'' (Some (tx_id transaction))] in
      if historical_amounts = [] \<or> length historical_amounts < 3 then
        (started,
         AnomalyDetection_new (tx_id transaction) False (Finite 0.0) (Finite 0.10)
           [Text ''Not enough historical data (need >= 3 transactions)''])
      else
        let mean = np_mean l historical_amounts;
            std = np_std l historical_amounts
        in if feq std (Finite 0) then
             (started,
              AnomalyDetection_new (tx_id transaction) False (Finite 0.0) (Finite 0.50)
                [Text ''All historical amounts are identical''])
           else
             let z_score = fabs (fdiv (rnd l) (fsub (rnd l) (amount transaction) mean) std);
                 anomalous = flt threshold z_score;
                 conf = py_min (Finite 0.99)
                          (fadd (rnd l) (Finite 0.50) (fdiv (rnd l) z_score (Finite 10)));
                 rs = (if anomalous
                       then [AmountStdDevs (amount transaction) z_score mean,
                             if flt (fadd (rnd l) mean (fmul (rnd l) threshold std))
                                  (amount transaction)
                             then UnusuallyHigh threshold else UnusuallyLow threshold]
                       else [])
             in (started @ [LogInfo ''anomaly_detection_completed'' (Some (tx_id transaction))],
                 AnomalyDetection_new (tx_id transaction) anomalous z_score conf rs))"

section \<open>The z-score function and its endpoint in \<^verbatim>\<open>ml-service/main.py\<close>\<close>

text \<open>The divisions by the literal \<^verbatim>\<open>3.0\<close> cannot raise and are written with \<open>fdiv\<close>.\<close>

definition detect_anomaly_zscore ::
  "lib \<Rightarrow> float64 \<Rightarrow> float64 list \<Rightarrow> exn + (bool \<times> float64 \<times> reason option)" where
  "detect_anomaly_zscore l amt historical_amounts =
     (if length historical_amounts < 3 then
        Inr (False, Finite 0.0, Some (Text ''Insufficient historical data''))
      else
        case statistics_mean l historical_amounts of
          Inl e \<Rightarrow> Inl e
        | Inr mean \<Rightarrow>
            (case statistics_stdev l historical_amounts of
               Inl e \<Rightarrow> Inl e
             | Inr stdev \<Rightarrow>
                 if feq stdev (Finite 0) then
                   let anomalous = (\<not> feq amt mean);
                       score = (if anomalous then Finite 1.0 else Finite 0.0);
                       r = (if anomalous then Some (DiffersFromConstant amt mean) else None)
                   in Inr (anomalous, score, r)
                 else
                   (case py_truediv (rnd l) (fsub (rnd l) amt mean) stdev of
                      Inl e \<Rightarrow> Inl e
                    | Inr ratio \<Rightarrow>
                        let z_score = fabs ratio;
                            anomalous = flt (Finite 2.0) z_score;
                            score = py_min (fdiv (rnd l) z_score (Finite 3.0)) (Finite 1.0);
                            r = (if anomalous then Some (AmountStdDevs amt z_score mean)
                                 else None)
                        in Inr (anomalous, score, r))))"

text \<open>The response field \<^verbatim>\<open>method\<close> is \<open>method_tag\<close> here.\<close>

record AnomalyDetectionResponse =
  is_anomaly :: bool
  anomaly_score :: float64
  confidence :: float64
  method_tag :: string
  reason :: "reason option"

record AnomalyRequest =
  transaction :: Transaction
  historical_amounts :: "float64 list"

definition detect_anomaly :: "lib \<Rightarrow> AnomalyRequest \<Rightarrow> exn + AnomalyDetectionResponse" where
  "detect_anomaly l request =
     (case detect_anomaly_zscore l (amount (transaction request)) (historical_amounts request) of
        Inl e \<Rightarrow> Inl e
      | Inr (anomalous, score, r) \<Rightarrow>
          Inr \<lparr>AnomalyDetectionResponse.is_anomaly = anomalous, anomaly_score = score,
               confidence = (if length (historical_amounts request) \<ge> 10
                             then Finite 0.85 else Finite 0.60),
               method_tag = ''zscore'', reason = r\<rparr>)"

section \<open>Strings\<close>

text \<open>A string is the list of its characters. The operator \<^verbatim>\<open>in\<close> on strings:
  \<open>contains p s\<close> is \<^verbatim>\<open>p in s\<close>, the pattern occurs at some position of the text.\<close>

fun contains :: "string \<Rightarrow> string \<Rightarrow> bool" where
  "contains p [] = (p = [])"
| "contains p (c # cs) = (take (length p) (c # cs) = p \<or> contains p cs)"

section \<open>The pattern tables and endpoints of \<^verbatim>\<open>ml-service/main.py\<close>\<close>

text \<open>A dictionary literal is kept as the list of its items, in the order written, which
  is the order \<^verbatim>\<open>.items()\<close> iterates in.\<close>

definition MERCHANT_PATTERNS :: "(string \<times> string) list" where
  "MERCHANT_PATTERNS =
     [(''STARBUCKS'', ''starbucks''),
      (''AMAZON'', ''amazon''),
      (''UBER'', ''uber''),
      (''NETFLIX'', ''netflix''),
      (''SPOTIFY'', ''spotify''),
      (''TARGET'', ''target''),
      (''WALMART'', ''walmart'')]"

text \<open>\<^verbatim>\<open>CATEGORY_RULES\<close> of \<^verbatim>\<open>ml-service/main.py\<close> (the table of the same name in
  \<^verbatim>\<open>category.py\<close> follows below).\<close>

definition CATEGORY_RULES_main :: "(string \<times> string) list" where
  "CATEGORY_RULES_main =
     [(''starbucks'', ''cafe''),
      (''amazon'', ''online-shopping''),
      (''uber'', ''transportation''),
      (''netflix'', ''entertainment''),
      (''spotify'', ''entertainment''),
      (''target'', ''retail''),
      (''walmart'', ''retail'')]"

text \<open>The loop of \<^verbatim>\<open>detect_merchant_simple\<close> over the items of the table: the first
  pattern that occurs in the text decides.\<close>

fun match_patterns :: "(string \<times> string) list \<Rightarrow> string \<Rightarrow> string option" where
  "match_patterns [] description_upper = None"
| "match_patterns ((pattern, merchant) # rest) description_upper =
     (if contains pattern description_upper then Some merchant
      else match_patterns rest description_upper)"

text \<open>The confidences of the pattern and rule code are float literals that are only
  returned; they are kept as the numbers their decimals name.\<close>

definition detect_merchant_simple :: "lib \<Rightarrow> string \<Rightarrow> string \<times> real" where
  "detect_merchant_simple l d =
     (let description_upper = str_upper l d in
      case match_patterns MERCHANT_PATTERNS description_upper of
        Some merchant \<Rightarrow> (merchant, 0.95)
      | None \<Rightarrow>
          (let first_word = (case str_split l d of [] \<Rightarrow> ''UNKNOWN'' | w # _ \<Rightarrow> w)
           in (str_lower l first_word, 0.30)))"

definition detect_category_simple :: "string \<Rightarrow> string \<times> real" where
  "detect_category_simple merchant =
     (case map_of CATEGORY_RULES_main merchant of
        Some category \<Rightarrow> (category, 0.95)
      | None \<Rightarrow> (''uncategorized'', 0.30))"

record MerchantDetectionResponse =
  merchant :: string
  confidence :: real
  method_tag :: string

record CategoryDetectionResponse =
  category :: string
  confidence :: real
  method_tag :: string

definition detect_merchant :: "lib \<Rightarrow> Transaction \<Rightarrow> MerchantDetectionResponse" where
  "detect_merchant l tx =
     (case detect_merchant_simple l (description tx) of
        (m, c) \<Rightarrow> \<lparr>MerchantDetectionResponse.merchant = m, confidence = c,
                    method_tag = ''pattern-matching''\<rparr>)"

text \<open>The query parameter \<^verbatim>\<open>merchant\<close> is optional; \<^verbatim>\<open>if not merchant\<close> holds for a
  missing one and for the empty string.\<close>

definition detect_category ::
  "lib \<Rightarrow> Transaction \<Rightarrow> string option \<Rightarrow> CategoryDetectionResponse" where
  "detect_category l tx merchant_param =
     (let m = (case merchant_param of
                 None \<Rightarrow> fst (detect_merchant_simple l (description tx))
               | Some given \<Rightarrow>
                   if given = [] then fst (detect_merchant_simple l (description tx)) else given)
      in case detect_category_simple m of
           (cat, c) \<Rightarrow> \<lparr>CategoryDetectionResponse.category = cat, confidence = c,
                         method_tag = ''rules''\<rparr>)"

section \<open>The generative model and its replies\<close>

text \<open>A value as \<^verbatim>\<open>json.loads\<close> returns it. An object is kept as the items of the
  dictionary it becomes (its keys are distinct).\<close>

datatype json =
    JNull
  | JBool bool
  | JNum real
  | JStr string
  | JArr "json list"
  | JObj "(string \<times> json) list"

text \<open>\<^verbatim>\<open>result[key]\<close> and \<^verbatim>\<open>result.get(key)\<close>: a missing key raises in the first and
  gives \<^verbatim>\<open>None\<close> in the second; a value that is no dictionary supports neither.\<close>

fun getitem :: "json \<Rightarrow> string \<Rightarrow> exn + json" where
  "getitem (JObj items) key =
     (case map_of items key of None \<Rightarrow> Inl (KeyError key) | Some v \<Rightarrow> Inr v)"
| "getitem _ key = Inl TypeError"

fun dict_get :: "json \<Rightarrow> string \<Rightarrow> exn + json" where
  "dict_get (JObj items) key =
     (case map_of items key of None \<Rightarrow> Inr JNull | Some v \<Rightarrow> Inr v)"
| "dict_get _ key = Inl AttributeError"

text \<open>What the detectors are built from: the settings of \<^verbatim>\<open>app/config.py\<close> they read
  and the behaviour of the libraries they call. \<open>complete\<close> is the request to the
  provider's client for a prompt, giving the text of the reply or the exception raised on
  the way; \<open>json_loads\<close> is \<^verbatim>\<open>json.loads\<close>; \<open>lax_float\<close> is what pydantic converts a
  value that is no number to when the field is a float (nothing, when it refuses).\<close>

record env =
  llm_provider :: provider
  openai_model :: string
  anthropic_model :: string
  complete :: "provider \<Rightarrow> prompt \<Rightarrow> exn + string"
  json_loads :: "string \<Rightarrow> exn + json"
  lax_float :: "json \<Rightarrow> real option"

text \<open>\<^verbatim>\<open>self.model\<close>, as both constructors set it.\<close>

definition model_of :: "env \<Rightarrow> string" where
  "model_of e = (if llm_provider e = openai then openai_model e else anthropic_model e)"

text \<open>The validation of the fields of the pydantic models: a string field takes a
  string, an optional string field also \<^verbatim>\<open>None\<close>, a float field a number or what
  \<open>lax_float\<close> converts.\<close>

fun pydantic_str :: "json \<Rightarrow> string option" where
  "pydantic_str (JStr s) = Some s"
| "pydantic_str _ = None"

fun pydantic_opt_str :: "json \<Rightarrow> string option option" where
  "pydantic_opt_str JNull = Some None"
| "pydantic_opt_str (JStr s) = Some (Some s)"
| "pydantic_opt_str _ = None"

fun pydantic_float :: "env \<Rightarrow> json \<Rightarrow> real option" where
  "pydantic_float e (JNum r) = Some r"
| "pydantic_float e v = lax_float e v"

text \<open>The requests to the model among the events of a run.\<close>

fun llm_calls :: "event list \<Rightarrow> (provider \<times> prompt) list" where
  "llm_calls [] = []"
| "llm_calls (LLMCall p q # es) = (p, q) # llm_calls es"
| "llm_calls (ev # es) = llm_calls es"

section \<open>The merchant detector of \<^verbatim>\<open>app/detectors/merchant.py\<close>\<close>

record MerchantDetection =
  transaction_id :: string
  merchant :: string
  confidence :: real
  model :: string
  reasoning :: "string option"

text \<open>The constructor of the pydantic model, given the values read from the reply:
  every field must validate and \<open>confidence\<close> must lie in \<open>[0, 1]\<close>.\<close>

definition MerchantDetection_new ::
  "env \<Rightarrow> string \<Rightarrow> json \<Rightarrow> json \<Rightarrow> string \<Rightarrow> json \<Rightarrow> exn + MerchantDetection" where
  "MerchantDetection_new e tid m c mdl r =
     (case (pydantic_str m, pydantic_float e c, pydantic_opt_str r) of
        (Some m', Some c', Some r') \<Rightarrow>
          if 0 \<le> c' \<and> c' \<le> 1
          then Inr \<lparr>MerchantDetection.transaction_id = tid, merchant = m', confidence = c',
                    model = mdl, reasoning = r'\<rparr>
          else Inl ValidationError
      | _ \<Rightarrow> Inl ValidationError)"

text \<open>The part the two provider methods share after the request: parse the text, read
  the keys in the order of the constructor call, construct.\<close>

definition merchant_of_reply :: "env \<Rightarrow> Transaction \<Rightarrow> exn + string \<Rightarrow> exn + MerchantDetection" where
  "merchant_of_reply e tx reply =
     (case reply of
        Inl err \<Rightarrow> Inl err
      | Inr content \<Rightarrow>
          (case json_loads e content of
             Inl err \<Rightarrow> Inl err
           | Inr result \<Rightarrow>
               (case getitem result ''merchant'' of
                  Inl err \<Rightarrow> Inl err
                | Inr m \<Rightarrow>
                    (case getitem result ''confidence'' of
                       Inl err \<Rightarrow> Inl err
                     | Inr c \<Rightarrow>
                         (case dict_get result ''reasoning'' of
                            Inl err \<Rightarrow> Inl err
                          | Inr r \<Rightarrow> MerchantDetection_new e (tx_id tx) m c (model_of e) r)))))"

definition MerchantDetector_detect_with_openai ::
  "env \<Rightarrow> Transaction \<Rightarrow> event list \<times> (exn + MerchantDetection)" where
  "MerchantDetector_detect_with_openai e tx =
     ([LLMCall openai (MerchantPrompt tx)],
      merchant_of_reply e tx (complete e openai (MerchantPrompt tx)))"

definition MerchantDetector_detect_with_anthropic ::
  "env \<Rightarrow> Transaction \<Rightarrow> event list \<times> (exn + MerchantDetection)" where
  "MerchantDetector_detect_with_anthropic e tx =
     ([LLMCall anthropic (MerchantPrompt tx)],
      merchant_of_reply e tx (complete e anthropic (MerchantPrompt tx)))"

text \<open>\<^verbatim>\<open>MerchantDetector.detect\<close>: the log line of the start, the request through the
  configured provider, then the log line of the end or, under \<^verbatim>\<open>except\<close>, the log line
  of the failure and the exception raised again.\<close>

definition MerchantDetector_detect ::
  "env \<Rightarrow> Transaction \<Rightarrow> event list \<times> (exn + MerchantDetection)" where
  "MerchantDetector_detect e tx =
     (case (if llm_provider e = openai
            then MerchantDetector_detect_with_openai e tx
            else MerchantDetector_detect_with_anthropic e tx) of
        (calls, Inr result) \<Rightarrow>
          (LogInfo ''merchant_detection_started'' (Some (tx_id tx)) # calls @
             [LogInfo ''merchant_detection_completed'' (Some (tx_id tx))],
           Inr result)
      | (calls, Inl err) \<Rightarrow>
          (LogInfo ''merchant_detection_started'' (Some (tx_id tx)) # calls @
             [LogError ''merchant_detection_failed'' (tx_id tx) err],
           Inl err))"

subsection \<open>Batch detection\<close>

text \<open>\<^verbatim>\<open>detect_merchants_batch\<close>. \<^verbatim>\<open>asyncio.gather\<close> with \<^verbatim>\<open>return_exceptions=True\<close>
  gives one outcome per task, in the order of the tasks, an exception standing in the
  place of the result of a task that raised. The loop over \<^verbatim>\<open>enumerate(results)\<close>
  then keeps the results and logs each exception under \<^verbatim>\<open>transactions[i].id\<close>; an
  index outside the list would raise. The tasks run interleaved, so their own log lines
  and requests are kept per task, not in one sequence.\<close>

fun collect ::
  "Transaction list \<Rightarrow> nat \<Rightarrow> (exn + MerchantDetection) list \<Rightarrow>
   MerchantDetection list \<Rightarrow> event list \<Rightarrow> exn + (MerchantDetection list \<times> event list)" where
  "collect transactions i [] detections logged = Inr (detections, logged)"
| "collect transactions i (Inl err # results) detections logged =
     (if i < length transactions
      then collect transactions (Suc i) results detections
             (logged @ [LogError ''batch_detection_error'' (tx_id (transactions ! i)) err])
      else Inl IndexError)"
| "collect transactions i (Inr result # results) detections logged =
     collect transactions (Suc i) results (detections @ [result]) logged"

record batch_outcome =
  task_events :: "event list list"
  batch_events :: "event list"
  returned :: "exn + MerchantDetection list"

definition detect_merchants_batch :: "env \<Rightarrow> Transaction list \<Rightarrow> batch_outcome" where
  "detect_merchants_batch e transactions =
     (let tasks = map (MerchantDetector_detect e) transactions;
          results = map snd tasks;
          init = [LogInfo ''merchant_detector_initialized'' None]
      in case collect transactions 0 results [] [] of
           Inl err \<Rightarrow> \<lparr>task_events = map fst tasks, batch_events = init, returned = Inl err\<rparr>
         | Inr (detections, logged) \<Rightarrow>
             \<lparr>task_events = map fst tasks, batch_events = init @ logged,
              returned = Inr detections\<rparr>)"

section \<open>The category detector of \<^verbatim>\<open>app/detectors/category.py\<close>\<close>

record rule =
  category :: string
  confidence :: real
  rule_id :: string

definition CATEGORY_RULES :: "(string \<times> rule) list" where
  "CATEGORY_RULES =
     [(''starbucks'', \<lparr>rule.category = ''cafe'', confidence = 0.98, rule_id = ''starbucks-rule''\<rparr>),
      (''amazon'', \<lparr>rule.category = ''shopping'', confidence = 0.95, rule_id = ''amazon-rule''\<rparr>),
      (''uber'', \<lparr>rule.category = ''transportation'', confidence = 0.95, rule_id = ''uber-rule''\<rparr>),
      (''walmart'', \<lparr>rule.category = ''groceries'', confidence = 0.90, rule_id = ''walmart-rule''\<rparr>)]"

text \<open>The categories the prompt of \<^verbatim>\<open>_detect_with_llm\<close> lists after "Categories:" and
  tells the model to choose from; the source holds them in the prompt text only.\<close>

definition prompt_categories :: "string list" where
  "prompt_categories =
     [''cafe'', ''groceries'', ''shopping'', ''transportation'', ''utilities'', ''dining'',
      ''entertainment'', ''healthcare'', ''other'']"

text \<open>The field \<^verbatim>\<open>method\<close>, of type \<^verbatim>\<open>Literal["rule", "ml"]\<close>, is \<open>detection_method\<close>
  here.\<close>

datatype method_literal = Method_rule | Method_ml

record CategoryDetection =
  transaction_id :: string
  category :: string
  confidence :: real
  detection_method :: method_literal
  rule_id :: "string option"
  model :: "string option"
  reasoning :: "string option"

definition CategoryDetection_new ::
  "env \<Rightarrow> string \<Rightarrow> json \<Rightarrow> json \<Rightarrow> method_literal \<Rightarrow> string option \<Rightarrow> string option \<Rightarrow>
   json \<Rightarrow> exn + CategoryDetection" where
  "CategoryDetection_new e tid cat c m rid mdl r =
     (case (pydantic_str cat, pydantic_float e c, pydantic_opt_str r) of
        (Some cat', Some c', Some r') \<Rightarrow>
          if 0 \<le> c' \<and> c' \<le> 1
          then Inr \<lparr>CategoryDetection.transaction_id = tid, category = cat', confidence = c',
                    detection_method = m, rule_id = rid, model = mdl, reasoning = r'\<rparr>
          else Inl ValidationError
      | _ \<Rightarrow> Inl ValidationError)"

definition category_of_reply ::
  "env \<Rightarrow> Transaction \<Rightarrow> exn + string \<Rightarrow> exn + CategoryDetection" where
  "category_of_reply e tx reply =
     (case reply of
        Inl err \<Rightarrow> Inl err
      | Inr content \<Rightarrow>
          (case json_loads e content of
             Inl err \<Rightarrow> Inl err
           | Inr result \<Rightarrow>
               (case getitem result ''category'' of
                  Inl err \<Rightarrow> Inl err
                | Inr cat \<Rightarrow>
                    (case getitem result ''confidence'' of
                       Inl err \<Rightarrow> Inl err
                     | Inr c \<Rightarrow>
                         (case dict_get result ''reasoning'' of
                            Inl err \<Rightarrow> Inl err
                          | Inr r \<Rightarrow>
                              CategoryDetection_new e (tx_id tx) cat c Method_ml None
                                (Some (model_of e)) r)))))"

definition CategoryDetector_detect_with_llm ::
  "env \<Rightarrow> Transaction \<Rightarrow> string \<Rightarrow> event list \<times> (exn + CategoryDetection)" where
  "CategoryDetector_detect_with_llm e tx merchant_name =
     (if llm_provider e = openai
      then ([LLMCall openai (CategoryPrompt tx merchant_name)],
            category_of_reply e tx (complete e openai (CategoryPrompt tx merchant_name)))
      else ([LLMCall anthropic (CategoryPrompt tx merchant_name)],
            category_of_reply e tx (complete e anthropic (CategoryPrompt tx merchant_name))))"

definition CategoryDetector_detect ::
  "env \<Rightarrow> Transaction \<Rightarrow> string \<Rightarrow> event list \<times> (exn + CategoryDetection)" where
  "CategoryDetector_detect e tx merchant_name =
     (case map_of CATEGORY_RULES merchant_name of
        Some matched \<Rightarrow>
          ([LogInfo ''category_detection_started'' (Some (tx_id tx)),
            LogInfo ''category_detection_rule_match'' (Some (tx_id tx))],
           CategoryDetection_new e (tx_id tx) (JStr (rule.category matched))
             (JNum (rule.confidence matched)) Method_rule (Some (rule.rule_id matched)) None
             (JStr (''Merchant '' @ [CHR 0x27] @ merchant_name @ [CHR 0x27] @
                    '' matches rule '' @ rule.rule_id matched)))
      | None \<Rightarrow>
          (case CategoryDetector_detect_with_llm e tx merchant_name of
             (calls, result) \<Rightarrow>
               (LogInfo ''category_detection_started'' (Some (tx_id tx)) #
                LogInfo ''category_detection_llm_fallback'' (Some (tx_id tx)) # calls,
                result)))"

section \<open>Sample inputs\<close>

text \<open>The transaction of the example in \<^verbatim>\<open>app/models.py\<close>, with the amount left open,
  and the ten historical amounts of the specification's example.\<close>

definition sample_tx :: "real \<Rightarrow> Transaction" where
  "sample_tx a = \<lparr>tx_id = ''tx-12345'', description = ''STARBUCKS #1234 SEATTLE WA'',
                  amount = Finite a, date = ''2024-03-20'', bank = Some ''bofa''\<rparr>"

definition ten_point_history :: "float64 list" where
  "ten_point_history = map Finite [10, 12, 11, 9, 10, 13, 10, 11, 9, 12]"

text \<open>
  A sample of the libraries, for the concrete runs below: \<open>exact_lib\<close>. Its arithmetic is
  exact within the range of the doubles and overflows to an infinity beyond the largest
  double, \<open>max_float\<close>; its statistics are computed with that arithmetic the way the
  libraries compute them (\<^verbatim>\<open>numpy\<close>: the sum, divided by the count; the root of the mean
  of the squared absolute deviations; \<^verbatim>\<open>statistics\<close>: exact, then rounded once); its
  string methods are those of \<^verbatim>\<open>str\<close> on ASCII text. On small whole numbers, where
  float arithmetic is exact, it computes what the program computes.
\<close>

definition max_float :: real where
  "max_float = 2 ^ 1024 - 2 ^ 971"


definition exact_rnd :: "real \<Rightarrow> float64" where
  "exact_rnd x = (if max_float < x then PosInf else if x < - max_float then NegInf else Finite x)"

fun fsqrt :: "(real \<Rightarrow> float64) \<Rightarrow> float64 \<Rightarrow> float64" where
  "fsqrt r (Finite a) = (if a < 0 then NaN else r (sqrt a))"
| "fsqrt r PosInf = PosInf"
| "fsqrt r x = NaN"

definition sample_np_mean :: "float64 list \<Rightarrow> float64" where
  "sample_np_mean xs =
     fdiv exact_rnd (foldl (fadd exact_rnd) (Finite 0) xs) (Finite (real (length xs)))"

definition sample_np_std :: "float64 list \<Rightarrow> float64" where
  "sample_np_std xs =
     fsqrt exact_rnd
       (sample_np_mean
          (map (\<lambda>x. fmul exact_rnd (fabs (fsub exact_rnd x (sample_np_mean xs)))
                                     (fabs (fsub exact_rnd x (sample_np_mean xs)))) xs))"

fun finite_values :: "float64 list \<Rightarrow> real list option" where
  "finite_values [] = Some []"
| "finite_values (Finite a # xs) = map_option ((#) a) (finite_values xs)"
| "finite_values (x # xs) = None"

definition sample_statistics_mean :: "float64 list \<Rightarrow> exn + float64" where
  "sample_statistics_mean xs =
     (if length xs < 1 then Inl StatisticsError
      else case finite_values xs of
             None \<Rightarrow> Inr NaN
           | Some rs \<Rightarrow> Inr (exact_rnd (sum_list rs / real (length rs))))"

definition sample_statistics_stdev :: "float64 list \<Rightarrow> exn + float64" where
  "sample_statistics_stdev xs =
     (if length xs < 2 then Inl StatisticsError
      else case finite_values xs of
             None \<Rightarrow> Inr NaN
           | Some rs \<Rightarrow>
               (let v = sqrt (sum_list (map (\<lambda>x. (x - sum_list rs / real (length rs)) ^ 2) rs)
                              / real (length rs - 1))
                in if max_float < v then Inl OverflowError else Inr (Finite v)))"

definition ascii_upper_char :: "char \<Rightarrow> char" where
  "ascii_upper_char c =
     (case map_of (zip ''abcdefghijklmnopqrstuvwxyz'' ''ABCDEFGHIJKLMNOPQRSTUVWXYZ'') c of
        Some u \<Rightarrow> u | None \<Rightarrow> c)"

definition ascii_lower_char :: "char \<Rightarrow> char" where
  "ascii_lower_char c =
     (case map_of (zip ''ABCDEFGHIJKLMNOPQRSTUVWXYZ'' ''abcdefghijklmnopqrstuvwxyz'') c of
        Some l \<Rightarrow> l | None \<Rightarrow> c)"

definition ascii_space :: "char \<Rightarrow> bool" where
  "ascii_space c \<longleftrightarrow> c \<in> set [CHR '' '', CHR 0x09, CHR 0x0A, CHR 0x0B, CHR 0x0C, CHR 0x0D,
                              CHR 0x1C, CHR 0x1D, CHR 0x1E, CHR 0x1F]"

fun split_from :: "string \<Rightarrow> string \<Rightarrow> string list" where
  "split_from w [] = (if w = [] then [] else [rev w])"
| "split_from w (c # cs) =
     (if ascii_space c then (if w = [] then split_from [] cs else rev w # split_from [] cs)
      else split_from (c # w) cs)"

definition exact_lib :: lib where
  "exact_lib =
     \<lparr>rnd = exact_rnd, np_mean = sample_np_mean, np_std = sample_np_std,
      statistics_mean = sample_statistics_mean, statistics_stdev = sample_statistics_stdev,
      str_upper = map ascii_upper_char, str_lower = map ascii_lower_char,
      str_split = split_from []\<rparr>"

text \<open>Environments for the detectors: one whose provider fails with a given exception,
  one whose reply does not parse, and one whose reply parses to a given value. The
  model names are the defaults of \<^verbatim>\<open>app/config.py\<close>.\<close>

definition failing :: "exn \<Rightarrow> env" where
  "failing err =
     \<lparr>llm_provider = openai, openai_model = ''gpt-4-turbo-preview'',
      anthropic_model = ''claude-3-sonnet-20240229'',
      complete = (\<lambda>p q. Inl err), json_loads = (\<lambda>s. Inl JSONDecodeError),
      lax_float = (\<lambda>v. None)\<rparr>"

definition garbled :: env where
  "garbled =
     \<lparr>llm_provider = openai, openai_model = ''gpt-4-turbo-preview'',
      anthropic_model = ''claude-3-sonnet-20240229'',
      complete = (\<lambda>p q. Inr ''I think the merchant is Starbucks''),
      json_loads = (\<lambda>s. Inl JSONDecodeError),
      lax_float = (\<lambda>v. None)\<rparr>"

definition replying :: "json \<Rightarrow> env" where
  "replying v =
     \<lparr>llm_provider = openai, openai_model = ''gpt-4-turbo-preview'',
      anthropic_model = ''claude-3-sonnet-20240229'',
      complete = (\<lambda>p q. Inr ''(reply)''), json_loads = (\<lambda>s. Inr v),
      lax_float = (\<lambda>v. None)\<rparr>"

text \<open>An environment whose provider fails for the transaction \<open>tx-2\<close> only, and three
  transactions for a batch.\<close>

definition failing_for_tx2 :: env where
  "failing_for_tx2 =
     \<lparr>llm_provider = anthropic, openai_model = ''gpt-4-turbo-preview'',
      anthropic_model = ''claude-3-sonnet-20240229'',
      complete = (\<lambda>p q. case q of
                    MerchantPrompt tx \<Rightarrow> if tx_id tx = ''tx-2'' then Inl APIError else Inr ''(reply)''
                  | CategoryPrompt tx m \<Rightarrow> Inr ''(reply)''),
      json_loads = (\<lambda>s. Inr (JObj [(''merchant'', JStr ''starbucks''), (''confidence'', JNum 0.98)])),
      lax_float = (\<lambda>v. None)\<rparr>"

definition batch_tx :: "string \<Rightarrow> Transaction" where
  "batch_tx i = \<lparr>tx_id = i, description = ''STARBUCKS'', amount = Finite 4.99, date = ''2024-03-20'',
                 bank = None\<rparr>"

section \<open>Float arithmetic and the branches of the anomaly code\<close>

subsection \<open>The order of the floats\<close>

lemma fle_trans: "fle x y \<Longrightarrow> fle y z \<Longrightarrow> fle x z"
  by (cases x; cases y; cases z) simp_all

lemma flt_imp_fle: "flt x y \<Longrightarrow> fle x y"
  by (cases x; cases y) simp_all

lemma fle_not_flt: "fle x y \<Longrightarrow> \<not> flt y x"
  by (cases x; cases y) simp_all

lemma not_flt_fle: "\<not> flt x y \<Longrightarrow> x \<noteq> NaN \<Longrightarrow> y \<noteq> NaN \<Longrightarrow> fle y x"
  by (cases x; cases y) simp_all

lemma fle_not_NaN: "fle x y \<Longrightarrow> x \<noteq> NaN \<and> y \<noteq> NaN"
  by (cases x; cases y) simp_all

lemma fle_flt_trans: "fle x y \<Longrightarrow> flt y z \<Longrightarrow> flt x z"
  by (cases x; cases y; cases z) simp_all

lemma flt_fle_trans: "flt x y \<Longrightarrow> fle y z \<Longrightarrow> flt x z"
  by (cases x; cases y; cases z) simp_all

lemma fabs_sign: "fabs x = NaN \<or> fle (Finite 0) (fabs x)"
  by (cases x) simp_all

lemma fabs_nonneg: "fle (Finite 0) x \<Longrightarrow> fabs x = x"
  by (cases x) simp_all


lemma feq_zero: "feq x (Finite 0) \<longleftrightarrow> x = Finite 0"
  by (auto simp: feq_def)

subsection \<open>Rounding\<close>

lemma rounding_not_NaN: "rounding r \<Longrightarrow> r x \<noteq> NaN"
  by (simp add: rounding_def)

lemma rounding_mono: "rounding r \<Longrightarrow> x \<le> y \<Longrightarrow> fle (r x) (r y)"
  by (simp add: rounding_def)


lemma rounding_half:
  assumes "rounding r" and "\<bar>n\<bar> \<le> 2 ^ 53"
  shows "r (of_int n / 2) = Finite (of_int n / 2)"
  using assms by (simp add: rounding_def)

lemma rounding_ge:
  assumes "rounding r" and "\<bar>n\<bar> \<le> 2 ^ 53" and "of_int n / 2 \<le> x"
  shows "fle (Finite (of_int n / 2)) (r x)"
  using rounding_mono [OF assms(1,3)] rounding_half [OF assms(1,2)] by simp

lemma rounding_ge_0: "rounding r \<Longrightarrow> 0 \<le> x \<Longrightarrow> fle (Finite 0) (r x)"
  using rounding_ge [of r 0 x] by simp

lemma rounding_ge_half: "rounding r \<Longrightarrow> 1 / 2 \<le> x \<Longrightarrow> fle (Finite (1 / 2)) (r x)"
  using rounding_ge [of r 1 x] by simp

lemma fdiv_mono:
  assumes "rounding r" and "fle x y" and "0 < c"
  shows "fle (fdiv r x (Finite c)) (fdiv r y (Finite c))"
proof -
  have nn: "r t \<noteq> NaN" for t using assms(1) by (rule rounding_not_NaN)
  have inf: "fle (r t) PosInf" "fle NegInf (r t)" for t
    using nn [of t] by (cases "r t"; simp)+
  show ?thesis
  proof (cases x; cases y)
    fix a b assume "x = Finite a" "y = Finite b"
    with assms show ?thesis
      by (simp add: rounding_mono divide_right_mono)
  qed (use assms inf in \<open>simp_all add: signed_inf_def\<close>)
qed

lemma fadd_mono:
  assumes "rounding r" and "fle x y"
  shows "fle (fadd r (Finite c) x) (fadd r (Finite c) y)"
proof -
  have nn: "r t \<noteq> NaN" for t using assms(1) by (rule rounding_not_NaN)
  have inf: "fle (r t) PosInf" "fle NegInf (r t)" for t
    using nn [of t] by (cases "r t"; simp)+
  show ?thesis
  proof (cases x; cases y)
    fix a b assume "x = Finite a" "y = Finite b"
    with assms show ?thesis
      by (simp add: rounding_mono)
  qed (use assms inf in simp_all)
qed

lemma py_min_mono:
  assumes "fle x y"
  shows "fle (py_min (Finite a) x) (py_min (Finite a) y)"
  using assms by (cases x; cases y) (auto simp: py_min_def)

lemma py_min_upper: "fle (py_min (Finite a) x) (Finite a)"
  by (cases x) (auto simp: py_min_def)

lemma py_min_lower: "fle (Finite c) x \<or> x = NaN \<Longrightarrow> c \<le> a \<Longrightarrow> fle (Finite c) (py_min (Finite a) x)"
  by (cases x) (auto simp: py_min_def)

text \<open>The confidence of the z-score branch, as a function of the z-score.\<close>

lemma confidence_lower:
  assumes "rounding r" and "z = NaN \<or> fle (Finite 0) z"
  shows "fle (Finite (1 / 2))
           (py_min (Finite 0.99) (fadd r (Finite 0.50) (fdiv r z (Finite 10))))"
proof -
  have "fadd r (Finite 0.50) (fdiv r z (Finite 10)) = NaN \<or>
        fle (Finite (1 / 2)) (fadd r (Finite 0.50) (fdiv r z (Finite 10)))"
  proof (cases z)
    case (Finite a)
    with assms(2) have a: "0 \<le> a" by simp
    then have y: "fle (Finite 0) (r (a / 10))"
      using rounding_ge_0 [OF assms(1)] by simp
    show ?thesis
    proof (cases "r (a / 10)")
      case (Finite b)
      with y have "0 \<le> b" by simp
      then have "fle (Finite (1 / 2)) (r (50 / 10\<^sup>2 + b))"
        using rounding_ge_half [OF assms(1), of "50 / 10\<^sup>2 + b"] by simp
      with Finite \<open>z = Finite a\<close> show ?thesis by simp
    qed (use y \<open>z = Finite a\<close> in simp_all)
  qed (use assms(2) in \<open>simp_all add: signed_inf_def\<close>)
  then show ?thesis
    by (intro py_min_lower) auto
qed

lemma confidence_mono:
  assumes "rounding r" and "fle z1 z2"
  shows "fle (py_min (Finite 0.99) (fadd r (Finite 0.50) (fdiv r z1 (Finite 10))))
             (py_min (Finite 0.99) (fadd r (Finite 0.50) (fdiv r z2 (Finite 10))))"
  by (intro py_min_mono fadd_mono fdiv_mono assms) simp


subsection \<open>Branches of the anomaly code\<close>

lemma detect_insufficient:
  assumes "length hs < 3"
  shows "AnomalyDetector_detect l thr tx hs =
     ([LogInfo ''anomaly_detection_started'' (Some (tx_id tx))],
      Inr \<lparr>AnomalyDetection.transaction_id = tx_id tx, is_anomaly = False,
           anomaly_score = Finite 0, confidence = Finite 0.10,
           reasons = [Text ''Not enough historical data (need >= 3 transactions)'']\<rparr>)"
  using assms by (simp add: AnomalyDetector_detect_def AnomalyDetection_new_def)

lemma detect_identical:
  assumes "3 \<le> length hs" and "feq (np_std l hs) (Finite 0)"
  shows "AnomalyDetector_detect l thr tx hs =
     ([LogInfo ''anomaly_detection_started'' (Some (tx_id tx))],
      Inr \<lparr>AnomalyDetection.transaction_id = tx_id tx, is_anomaly = False,
           anomaly_score = Finite 0, confidence = Finite 0.50,
           reasons = [Text ''All historical amounts are identical'']\<rparr>)"
proof -
  from assms(1) have "hs \<noteq> []" "\<not> length hs < 3" by auto
  then show ?thesis
    using assms(2) by (simp add: AnomalyDetector_detect_def AnomalyDetection_new_def)
qed

lemma detect_zscore:
  assumes "3 \<le> length hs" and "\<not> feq (np_std l hs) (Finite 0)" and "rounding (rnd l)"
    and "z = fabs (fdiv (rnd l) (fsub (rnd l) (amount tx) (np_mean l hs)) (np_std l hs))"
  shows "snd (AnomalyDetector_detect l thr tx hs) =
      Inr \<lparr>AnomalyDetection.transaction_id = tx_id tx,
           is_anomaly = flt thr z,
           anomaly_score = z,
           confidence = py_min (Finite 0.99) (fadd (rnd l) (Finite 0.50) (fdiv (rnd l) z (Finite 10))),
           reasons = (if flt thr z
                      then [AmountStdDevs (amount tx) z (np_mean l hs),
                            if flt (fadd (rnd l) (np_mean l hs) (fmul (rnd l) thr (np_std l hs)))
                                 (amount tx)
                            then UnusuallyHigh thr else UnusuallyLow thr]
                      else [])\<rparr>"
proof -
  from assms(1) have ne: "hs \<noteq> []" "\<not> length hs < 3" by auto
  define c where "c = py_min (Finite 0.99) (fadd (rnd l) (Finite 0.50) (fdiv (rnd l) z (Finite 10)))"
  have zs: "z = NaN \<or> fle (Finite 0) z" unfolding assms(4) by (rule fabs_sign)
  have "fle (Finite (1 / 2)) c"
    unfolding c_def by (rule confidence_lower [OF assms(3) zs])
  then have c0: "fle (Finite 0) c" by (cases c) simp_all
  have "fle c (Finite 0.99)" unfolding c_def by (rule py_min_upper)
  then have c1: "fle c (Finite 1)" by (cases c) simp_all
  have new: "AnomalyDetection_new tid a z c rs =
     Inr \<lparr>AnomalyDetection.transaction_id = tid, is_anomaly = a, anomaly_score = z,
          confidence = c, reasons = rs\<rparr>" for tid a rs
    using c0 c1 by (simp add: AnomalyDetection_new_def)
  have "snd (AnomalyDetector_detect l thr tx hs) =
      AnomalyDetection_new (tx_id tx) (flt thr z) z c
        (if flt thr z
         then [AmountStdDevs (amount tx) z (np_mean l hs),
               if flt (fadd (rnd l) (np_mean l hs) (fmul (rnd l) thr (np_std l hs))) (amount tx)
               then UnusuallyHigh thr else UnusuallyLow thr]
         else [])"
    unfolding AnomalyDetector_detect_def Let_def c_def assms(4)
    using ne assms(2) by simp
  also note new
  finally show ?thesis unfolding c_def .
qed

lemma detect_zscore_fields:
  assumes "3 \<le> length hs" and "\<not> feq (np_std l hs) (Finite 0)" and "rounding (rnd l)"
    and "z = fabs (fdiv (rnd l) (fsub (rnd l) (amount tx) (np_mean l hs)) (np_std l hs))"
  shows "\<exists>d. snd (AnomalyDetector_detect l thr tx hs) = Inr d \<and>
     AnomalyDetection.anomaly_score d = z \<and>
     AnomalyDetection.confidence d =
       py_min (Finite 0.99) (fadd (rnd l) (Finite 0.50) (fdiv (rnd l) z (Finite 10))) \<and>
     AnomalyDetection.is_anomaly d = flt thr z"
  unfolding detect_zscore [OF assms] by simp

subsection \<open>Branches of the z-score function\<close>

lemma zscore_insufficient:
  "length hs < 3 \<Longrightarrow>
   detect_anomaly_zscore l a hs = Inr (False, Finite 0, Some (Text ''Insufficient historical data''))"
  by (simp add: detect_anomaly_zscore_def)

lemma zscore_constant:
  assumes "3 \<le> length hs" and "statistics_mean l hs = Inr m"
    and "statistics_stdev l hs = Inr s" and "feq s (Finite 0)"
  shows "detect_anomaly_zscore l a hs =
     Inr (\<not> feq a m, if \<not> feq a m then Finite 1 else Finite 0,
          if \<not> feq a m then Some (DiffersFromConstant a m) else None)"
  using assms by (simp add: detect_anomaly_zscore_def)

lemma zscore_nondegenerate:
  assumes "3 \<le> length hs" and "statistics_mean l hs = Inr m"
    and "statistics_stdev l hs = Inr s" and "\<not> feq s (Finite 0)"
    and "z = fabs (fdiv (rnd l) (fsub (rnd l) a m) s)"
  shows "detect_anomaly_zscore l a hs =
     Inr (flt (Finite 2) z, py_min (fdiv (rnd l) z (Finite 3)) (Finite 1),
          if flt (Finite 2) z then Some (AmountStdDevs a z m) else None)"
proof -
  from assms(1) have "\<not> length hs < 3" by simp
  then show ?thesis
    using assms(2-5) by (simp add: detect_anomaly_zscore_def py_truediv_def Let_def)
qed

lemma zscore_returns:
  assumes "statistics_mean l hs = Inr m" and "statistics_stdev l hs = Inr s"
  shows "\<exists>res. detect_anomaly_zscore l a hs = Inr res"
proof (cases "length hs < 3")
  case True
  from zscore_insufficient [OF this] show ?thesis by blast
next
  case False
  then have three: "3 \<le> length hs" by simp
  show ?thesis
  proof (cases "feq s (Finite 0)")
    case True
    from zscore_constant [OF three assms True] show ?thesis by blast
  next
    case False
    from zscore_nondegenerate [OF three assms False refl] show ?thesis by blast
  qed
qed

lemma detect_anomaly_confidence:
  assumes "detect_anomaly l req = Inr resp"
  shows "AnomalyDetectionResponse.confidence resp =
         (if 10 \<le> length (historical_amounts req) then Finite 0.85 else Finite 0.60)"
proof (cases "detect_anomaly_zscore l (amount (transaction req)) (historical_amounts req)")
  case (Inl e)
  with assms show ?thesis by (simp add: detect_anomaly_def)
next
  case (Inr res)
  obtain a sc r where "res = (a, sc, r)" by (cases res)
  with Inr assms show ?thesis by (auto simp: detect_anomaly_def)
qed

lemma detect_anomaly_returns:
  assumes "statistics_mean l (historical_amounts req) = Inr m"
    and "statistics_stdev l (historical_amounts req) = Inr s"
  shows "\<exists>resp. detect_anomaly l req = Inr resp"
proof -
  from zscore_returns [OF assms, of "amount (transaction req)"]
  obtain res where "detect_anomaly_zscore l (amount (transaction req)) (historical_amounts req) = Inr res"
    by blast
  moreover obtain a sc r where "res = (a, sc, r)" by (cases res)
  ultimately show ?thesis by (simp add: detect_anomaly_def)
qed

subsection \<open>The sample library\<close>

lemma max_float_large: "2 ^ 52 \<le> max_float"
  by (simp add: max_float_def)

lemma exact_rnd_small: "\<bar>x\<bar> \<le> 2 ^ 52 \<Longrightarrow> exact_rnd x = Finite x"
  using max_float_large by (auto simp: exact_rnd_def)

lemma rounding_exact_rnd: "rounding exact_rnd"
proof -
  have pos: "0 < max_float" using max_float_large by (rule less_le_trans [rotated]) simp
  have a: "exact_rnd x \<noteq> NaN" for x by (simp add: exact_rnd_def)
  have b: "fle (exact_rnd x) (exact_rnd y)" if "x \<le> y" for x y
    using that pos by (auto simp: exact_rnd_def)
  have c: "exact_rnd (- x) = fneg (exact_rnd x)" for x
    using pos by (auto simp: exact_rnd_def)
  have d: "exact_rnd (of_int n / 2) = Finite (of_int n / 2)" if "\<bar>n\<bar> \<le> 2 ^ 53" for n :: int
  proof (rule exact_rnd_small)
    from that have "\<bar>real_of_int n\<bar> \<le> 2 ^ 53"
      by (metis of_int_abs of_int_le_numeral_power_cancel_iff)
    then show "\<bar>real_of_int n / 2\<bar> \<le> 2 ^ 52" by simp
  qed
  show ?thesis unfolding rounding_def using a b c d by blast
qed

lemma rnd_exact_lib: "rnd exact_lib = exact_rnd"
  by (simp add: exact_lib_def)

subsection \<open>The statistics of the sample inputs\<close>

lemma np_constant:
  "np_mean exact_lib [Finite 10, Finite 10, Finite 10] = Finite 10"
  "np_std exact_lib [Finite 10, Finite 10, Finite 10] = Finite 0"
  by (simp_all add: exact_lib_def sample_np_std_def sample_np_mean_def fsub_def exact_rnd_small)

lemma np_two_level_4:
  "np_mean exact_lib [Finite 0, Finite 4, Finite 0, Finite 4] = Finite 2"
  "np_std exact_lib [Finite 0, Finite 4, Finite 0, Finite 4] = Finite 2"
  by (simp_all add: exact_lib_def sample_np_std_def sample_np_mean_def fsub_def exact_rnd_small)

lemma np_two_level_10:
  "np_mean exact_lib [Finite 0, Finite 0, Finite 0, Finite 0, Finite 0, Finite 4, Finite 4, Finite 4, Finite 4, Finite 4] = Finite 2"
  "np_std exact_lib [Finite 0, Finite 0, Finite 0, Finite 0, Finite 0, Finite 4, Finite 4, Finite 4, Finite 4, Finite 4] = Finite 2"
  by (simp_all add: exact_lib_def sample_np_std_def sample_np_mean_def fsub_def exact_rnd_small)

lemma sqrt_161: "0 < sqrt (161 / 100)" "sqrt (161 / 100) \<le> 2"
proof -
  show "0 < sqrt (161 / 100)" by simp
  show "sqrt (161 / 100) \<le> 2" by (rule real_le_lsqrt) simp_all
qed

lemma np_ten_point:
  "np_mean exact_lib ten_point_history = Finite (107 / 10)"
  "np_std exact_lib ten_point_history = Finite (sqrt (161 / 100))"
proof -
  show m: "np_mean exact_lib ten_point_history = Finite (107 / 10)"
    by (simp add: exact_lib_def sample_np_mean_def ten_point_history_def exact_rnd_small)
  have s: "exact_rnd (sqrt (161 / 100)) = Finite (sqrt (161 / 100))"
    using sqrt_161 by (intro exact_rnd_small) simp
  have "sample_np_mean
          (map (\<lambda>x. fmul exact_rnd (fabs (fsub exact_rnd x (Finite (107 / 10))))
                                     (fabs (fsub exact_rnd x (Finite (107 / 10)))))
             ten_point_history) = Finite (161 / 100)"
    by (simp add: sample_np_mean_def ten_point_history_def fsub_def exact_rnd_small
        power2_eq_square)
  then show "np_std exact_lib ten_point_history = Finite (sqrt (161 / 100))"
    using m s by (simp add: exact_lib_def sample_np_std_def)
qed

lemma statistics_constant:
  "statistics_mean exact_lib [Finite 10, Finite 10, Finite 10] = Inr (Finite 10)"
  "statistics_stdev exact_lib [Finite 10, Finite 10, Finite 10] = Inr (Finite 0)"
  using max_float_large
  by (simp_all add: exact_lib_def sample_statistics_mean_def sample_statistics_stdev_def
      exact_rnd_small)





subsection \<open>Lower bounds through the arithmetic\<close>

lemma fdiv_lower:
  assumes "rounding r" and "fle (Finite a0) x" and "0 \<le> a0" and "0 < s" and "s \<le> smax"
    and "\<bar>n\<bar> \<le> 2 ^ 53" and "of_int n / 2 \<le> a0 / smax"
  shows "fle (Finite (of_int n / 2)) (fdiv r x (Finite s))"
proof (cases x)
  case (Finite a)
  with assms(2) have "a0 \<le> a" by simp
  then have "a0 / s \<le> a / s" using assms(4) by (simp add: divide_right_mono)
  moreover have "a0 / smax \<le> a0 / s"
    using assms(3,4,5) by (simp add: frac_le)
  ultimately have "of_int n / 2 \<le> a / s" using assms(7) by linarith
  from rounding_ge [OF assms(1,6) this] Finite assms(4) show ?thesis by simp
next
  case PosInf
  with assms(4) show ?thesis by (simp add: signed_inf_def)
qed (use assms(2) in simp_all)

lemma fadd_lower:
  assumes "rounding r" and "fle (Finite b0) y" and "\<bar>n\<bar> \<le> 2 ^ 53" and "of_int n / 2 \<le> c + b0"
  shows "fle (Finite (of_int n / 2)) (fadd r (Finite c) y)"
proof (cases y)
  case (Finite b)
  with assms(2) have "b0 \<le> b" by simp
  with assms(4) have "of_int n / 2 \<le> c + b" by linarith
  from rounding_ge [OF assms(1,3) this] Finite show ?thesis by simp
qed (use assms(2) in simp_all)

lemma py_min_big: "fle (Finite c) x \<Longrightarrow> a \<le> c \<Longrightarrow> py_min (Finite a) x = Finite a"
  by (cases x) (auto simp: py_min_def)

lemma ten_point_AnomalyDetector:
  assumes r: "rounding (rnd l)"
    and m: "np_mean l ten_point_history = Finite m" "10 \<le> m" "m \<le> 11"
    and s: "np_std l ten_point_history = Finite s" "0 < s" "s \<le> 2"
  shows "\<exists>d. snd (AnomalyDetector_detect l anomaly_threshold (sample_tx 500) ten_point_history) = Inr d \<and>
       AnomalyDetection.is_anomaly d \<and> AnomalyDetection.confidence d = Finite 0.99"
proof -
  have three: "3 \<le> length ten_point_history" by (simp add: ten_point_history_def)
  have ne: "\<not> feq (np_std l ten_point_history) (Finite 0)"
    using s by (simp add: feq_def)
  define z where "z = fabs (fdiv (rnd l)
      (fsub (rnd l) (amount (sample_tx 500)) (np_mean l ten_point_history))
      (np_std l ten_point_history))"
  have "of_int 978 / 2 \<le> 500 + - m" using m by simp
  from rounding_ge [OF r _ this]
  have d0: "fle (Finite 489) (fsub (rnd l) (amount (sample_tx 500)) (np_mean l ten_point_history))"
    by (simp add: fsub_def sample_tx_def m)
  have q: "fle (Finite (of_int 488 / 2))
      (fdiv (rnd l) (fsub (rnd l) (amount (sample_tx 500)) (np_mean l ten_point_history)) (Finite s))"
    by (rule fdiv_lower [OF r d0 _ s(2,3)]) simp_all
  then have q': "fle (Finite 244)
      (fdiv (rnd l) (fsub (rnd l) (amount (sample_tx 500)) (np_mean l ten_point_history))
         (np_std l ten_point_history))"
    by (simp add: s)
  have "fle (Finite 0) (Finite 244)" by simp
  from fle_trans [OF this q'] have "z = fdiv (rnd l)
      (fsub (rnd l) (amount (sample_tx 500)) (np_mean l ten_point_history))
      (np_std l ten_point_history)"
    unfolding z_def by (rule fabs_nonneg)
  with q' have zb: "fle (Finite 244) z" by simp
  have "flt (Finite (5 / 2)) (Finite 244)" by simp
  from flt_fle_trans [OF this zb] have an: "flt anomaly_threshold z"
    by (simp add: anomaly_threshold_def)
  have y: "fle (Finite (of_int 48 / 2)) (fdiv (rnd l) z (Finite 10))"
    by (rule fdiv_lower [OF r zb, where smax = 10]) simp_all
  have x: "fle (Finite (of_int 49 / 2)) (fadd (rnd l) (Finite 0.50) (fdiv (rnd l) z (Finite 10)))"
    by (rule fadd_lower [OF r y]) simp_all
  have cf: "py_min (Finite 0.99) (fadd (rnd l) (Finite 0.50) (fdiv (rnd l) z (Finite 10))) = Finite 0.99"
    by (rule py_min_big [OF x]) simp
  from detect_zscore_fields [OF three ne r z_def, of anomaly_threshold]
  show ?thesis unfolding cf using an by auto
qed

lemma ten_point_endpoint:
  assumes "statistics_mean l ten_point_history = Inr m"
    and "statistics_stdev l ten_point_history = Inr s"
  shows "\<exists>resp. detect_anomaly l \<lparr>transaction = sample_tx 500, historical_amounts = ten_point_history\<rparr> =
           Inr resp \<and> AnomalyDetectionResponse.confidence resp = Finite 0.85"
proof -
  from detect_anomaly_returns [of l "\<lparr>transaction = sample_tx 500, historical_amounts = ten_point_history\<rparr>" m s]
    assms
  obtain resp where resp:
    "detect_anomaly l \<lparr>transaction = sample_tx 500, historical_amounts = ten_point_history\<rparr> = Inr resp"
    by auto
  from detect_anomaly_confidence [OF this]
  have "AnomalyDetectionResponse.confidence resp = Finite 0.85"
    by (simp add: ten_point_history_def)
  with resp show ?thesis by blast
qed

section \<open>Pattern matching on descriptions\<close>

lemma contains_iff: "contains p s \<longleftrightarrow> (\<exists>a b. s = a @ p @ b)"
proof (induction s)
  case Nil
  then show ?case by auto
next
  case (Cons c cs)
  show ?case
  proof
    assume "contains p (c # cs)"
    then consider "take (length p) (c # cs) = p" | "contains p cs" by auto
    then show "\<exists>a b. c # cs = a @ p @ b"
    proof cases
      case 1
      then have "c # cs = [] @ p @ drop (length p) (c # cs)"
        by (metis append_Nil append_take_drop_id)
      then show ?thesis by blast
    next
      case 2
      with Cons.IH obtain a b where "cs = a @ p @ b" by blast
      then have "c # cs = (c # a) @ p @ b" by simp
      then show ?thesis by blast
    qed
  next
    assume "\<exists>a b. c # cs = a @ p @ b"
    then obtain a b where ab: "c # cs = a @ p @ b" by blast
    show "contains p (c # cs)"
    proof (cases a)
      case Nil
      with ab have "take (length p) (c # cs) = p" by simp
      then show ?thesis by simp
    next
      case (Cons x xs)
      with ab have "cs = xs @ p @ b" by simp
      with Cons.IH have "contains p cs" by blast
      then show ?thesis by simp
    qed
  qed
qed

lemma match_patterns_first:
  "(\<exists>p m. (p, m) \<in> set ps \<and> contains p d) \<Longrightarrow>
   \<exists>i<length ps. contains (fst (ps ! i)) d \<and> (\<forall>j<i. \<not> contains (fst (ps ! j)) d) \<and>
      match_patterns ps d = Some (snd (ps ! i))"
proof (induction ps)
  case Nil
  then show ?case by simp
next
  case (Cons a ps)
  obtain p0 m0 where a: "a = (p0, m0)" by (cases a)
  show ?case
  proof (cases "contains p0 d")
    case True
    then have "contains (fst ((a # ps) ! 0)) d \<and> (\<forall>j<0. \<not> contains (fst ((a # ps) ! j)) d) \<and>
      match_patterns (a # ps) d = Some (snd ((a # ps) ! 0))"
      by (simp add: a)
    then show ?thesis by blast
  next
    case False
    with Cons.prems a have "\<exists>p m. (p, m) \<in> set ps \<and> contains p d" by auto
    from Cons.IH [OF this] obtain i where i: "i < length ps" "contains (fst (ps ! i)) d"
      "\<forall>j<i. \<not> contains (fst (ps ! j)) d" "match_patterns ps d = Some (snd (ps ! i))"
      by blast
    have "\<forall>j<Suc i. \<not> contains (fst ((a # ps) ! j)) d"
    proof (intro allI impI)
      fix j assume "j < Suc i"
      then show "\<not> contains (fst ((a # ps) ! j)) d"
        using False i(3) a by (cases j) auto
    qed
    with i False a have "Suc i < length (a # ps) \<and> contains (fst ((a # ps) ! Suc i)) d \<and>
      (\<forall>j<Suc i. \<not> contains (fst ((a # ps) ! j)) d) \<and>
      match_patterns (a # ps) d = Some (snd ((a # ps) ! Suc i))"
      by simp
    then show ?thesis by blast
  qed
qed

lemma starbucks_example:
  assumes "str_upper l ''STARBUCKS #1234'' = ''STARBUCKS #1234''"
  shows "detect_merchant_simple l ''STARBUCKS #1234'' = (''starbucks'', 0.95)"
  using assms by (simp add: detect_merchant_simple_def MERCHANT_PATTERNS_def)

section \<open>Runs of the detectors that ask the model\<close>

lemma MerchantDetector_calls_once:
  "llm_calls (fst (MerchantDetector_detect e tx)) = [(llm_provider e, MerchantPrompt tx)]"
  by (cases "llm_provider e")
     (auto simp: MerchantDetector_detect_def MerchantDetector_detect_with_openai_def
        MerchantDetector_detect_with_anthropic_def split: sum.splits)

lemma MerchantDetector_detect_failure:
  assumes "merchant_of_reply e tx (complete e (llm_provider e) (MerchantPrompt tx)) = Inl err"
  shows "MerchantDetector_detect e tx =
     ([LogInfo ''merchant_detection_started'' (Some (tx_id tx)),
       LLMCall (llm_provider e) (MerchantPrompt tx),
       LogError ''merchant_detection_failed'' (tx_id tx) err],
      Inl err)"
  using assms
  by (cases "llm_provider e")
     (simp_all add: MerchantDetector_detect_def MerchantDetector_detect_with_openai_def
        MerchantDetector_detect_with_anthropic_def)

lemma MerchantDetector_detect_result:
  "snd (MerchantDetector_detect e tx) =
     merchant_of_reply e tx (complete e (llm_provider e) (MerchantPrompt tx))"
  by (cases "llm_provider e")
     (auto simp: MerchantDetector_detect_def MerchantDetector_detect_with_openai_def
        MerchantDetector_detect_with_anthropic_def split: sum.splits)

lemma merchant_of_reply_obj:
  assumes "json_loads e content = Inr (JObj items)"
  shows "merchant_of_reply e tx (Inr content) =
     (case map_of items ''merchant'' of
        None \<Rightarrow> Inl (KeyError ''merchant'')
      | Some m \<Rightarrow>
          (case map_of items ''confidence'' of
             None \<Rightarrow> Inl (KeyError ''confidence'')
           | Some c \<Rightarrow>
               MerchantDetection_new e (tx_id tx) m c (model_of e)
                 (case map_of items ''reasoning'' of None \<Rightarrow> JNull | Some v \<Rightarrow> v)))"
  unfolding merchant_of_reply_def using assms
  by (simp split: option.split)

lemma merchant_of_reply_transport: "merchant_of_reply e tx (Inl err) = Inl err"
  by (simp add: merchant_of_reply_def)

lemma merchant_of_reply_unparseable:
  "json_loads e content = Inl err \<Longrightarrow> merchant_of_reply e tx (Inr content) = Inl err"
  by (simp add: merchant_of_reply_def)

lemma merchant_of_reply_no_merchant:
  "json_loads e content = Inr (JObj items) \<Longrightarrow> map_of items ''merchant'' = None \<Longrightarrow>
     merchant_of_reply e tx (Inr content) = Inl (KeyError ''merchant'')"
  by (simp add: merchant_of_reply_obj)

lemma merchant_of_reply_no_confidence:
  "json_loads e content = Inr (JObj items) \<Longrightarrow> map_of items ''merchant'' = Some m \<Longrightarrow>
     map_of items ''confidence'' = None \<Longrightarrow>
     merchant_of_reply e tx (Inr content) = Inl (KeyError ''confidence'')"
  by (simp add: merchant_of_reply_obj)

lemma MerchantDetection_new_Inr:
  assumes "MerchantDetection_new e tid mv c mdl rv = Inr d"
  shows "mv = JStr (MerchantDetection.merchant d) \<and>
         pydantic_float e c = Some (MerchantDetection.confidence d) \<and>
         0 \<le> MerchantDetection.confidence d \<and> MerchantDetection.confidence d \<le> 1 \<and>
         MerchantDetection.transaction_id d = tid"
proof -
  obtain m' where m': "pydantic_str mv = Some m'"
    using assms by (cases "pydantic_str mv") (simp_all add: MerchantDetection_new_def)
  obtain c' where c': "pydantic_float e c = Some c'"
    using assms m' by (cases "pydantic_float e c") (simp_all add: MerchantDetection_new_def)
  obtain r' where r': "pydantic_opt_str rv = Some r'"
    using assms m' c' by (cases "pydantic_opt_str rv") (simp_all add: MerchantDetection_new_def)
  have range: "0 \<le> c' \<and> c' \<le> 1"
    using assms m' c' r' by (cases "0 \<le> c' \<and> c' \<le> 1") (simp_all add: MerchantDetection_new_def)
  then have d: "d = \<lparr>MerchantDetection.transaction_id = tid, merchant = m', confidence = c',
                      model = mdl, reasoning = r'\<rparr>"
    using assms m' c' r' by (simp add: MerchantDetection_new_def)
  have "mv = JStr m'" using m' by (cases mv) simp_all
  with d c' range show ?thesis by simp
qed

lemma merchant_of_reply_success:
  assumes "merchant_of_reply e tx reply = Inr d"
  shows "\<exists>content items c.
           reply = Inr content \<and> json_loads e content = Inr (JObj items) \<and>
           map_of items ''merchant'' = Some (JStr (MerchantDetection.merchant d)) \<and>
           map_of items ''confidence'' = Some c \<and>
           pydantic_float e c = Some (MerchantDetection.confidence d) \<and>
           MerchantDetection.transaction_id d = tx_id tx"
proof -
  from assms obtain content where r: "reply = Inr content"
    by (cases reply) (simp_all add: merchant_of_reply_def)
  from assms r obtain result where j: "json_loads e content = Inr result"
    by (cases "json_loads e content") (simp_all add: merchant_of_reply_def)
  from assms r j obtain mv where gm: "getitem result ''merchant'' = Inr mv"
    by (cases "getitem result ''merchant''") (simp_all add: merchant_of_reply_def)
  then obtain items where o: "result = JObj items"
    by (cases result) simp_all
  note obj = merchant_of_reply_obj [OF j [unfolded o], of tx]
  from gm o have m: "map_of items ''merchant'' = Some mv"
    by (cases "map_of items ''merchant''") simp_all
  from assms r obj m obtain c where c: "map_of items ''confidence'' = Some c"
    by (cases "map_of items ''confidence''") simp_all
  from assms r obj m c
  have "MerchantDetection_new e (tx_id tx) mv c (model_of e)
       (case map_of items ''reasoning'' of None \<Rightarrow> JNull | Some v \<Rightarrow> v) = Inr d"
    by simp
  from MerchantDetection_new_Inr [OF this] r j o m c show ?thesis by blast
qed

lemma category_of_reply_obj:
  assumes "json_loads e content = Inr (JObj items)"
  shows "category_of_reply e tx (Inr content) =
     (case map_of items ''category'' of
        None \<Rightarrow> Inl (KeyError ''category'')
      | Some cat \<Rightarrow>
          (case map_of items ''confidence'' of
             None \<Rightarrow> Inl (KeyError ''confidence'')
           | Some c \<Rightarrow>
               CategoryDetection_new e (tx_id tx) cat c Method_ml None (Some (model_of e))
                 (case map_of items ''reasoning'' of None \<Rightarrow> JNull | Some v \<Rightarrow> v)))"
  unfolding category_of_reply_def using assms
  by (simp split: option.split)

lemma CategoryDetector_detect_fallback:
  assumes "map_of CATEGORY_RULES merchant_name = None"
  shows "CategoryDetector_detect e tx merchant_name =
     ([LogInfo ''category_detection_started'' (Some (tx_id tx)),
       LogInfo ''category_detection_llm_fallback'' (Some (tx_id tx)),
       LLMCall (llm_provider e) (CategoryPrompt tx merchant_name)],
      category_of_reply e tx (complete e (llm_provider e) (CategoryPrompt tx merchant_name)))"
  using assms
  by (cases "llm_provider e")
     (simp_all add: CategoryDetector_detect_def CategoryDetector_detect_with_llm_def)

subsection \<open>The loop of the batch\<close>

lemma collect_drop:
  assumes "i \<le> length txs"
  shows "collect txs i (map f (drop i txs)) dets logged =
     Inr (dets @ List.map_filter (\<lambda>tx. case f tx of Inl err \<Rightarrow> None | Inr d \<Rightarrow> Some d) (drop i txs),
          logged @ List.map_filter
            (\<lambda>tx. case f tx of
                    Inl err \<Rightarrow> Some (LogError ''batch_detection_error'' (tx_id tx) err)
                  | Inr d \<Rightarrow> None)
            (drop i txs))"
  using assms
proof (induction "length txs - i" arbitrary: i dets logged)
  case 0
  then have "drop i txs = []" by simp
  then show ?case by simp
next
  case (Suc n)
  then have lt: "i < length txs" by simp
  then have step: "drop i txs = txs ! i # drop (Suc i) txs"
    by (simp add: Cons_nth_drop_Suc)
  have n: "n = length txs - Suc i" using Suc.hyps(2) by simp
  have le: "Suc i \<le> length txs" using lt by simp
  note IH = Suc.hyps(1) [OF n le]
  show ?case
  proof (cases "f (txs ! i)")
    case (Inl err)
    with lt show ?thesis
      unfolding step by (simp add: IH)
  next
    case (Inr d)
    then show ?thesis
      unfolding step by (simp add: IH)
  qed
qed

lemma collect_all:
  "collect txs 0 (map f txs) [] [] =
     Inr (List.map_filter (\<lambda>tx. case f tx of Inl err \<Rightarrow> None | Inr d \<Rightarrow> Some d) txs,
          List.map_filter
            (\<lambda>tx. case f tx of
                    Inl err \<Rightarrow> Some (LogError ''batch_detection_error'' (tx_id tx) err)
                  | Inr d \<Rightarrow> None)
            txs)"
  using collect_drop [of 0 txs f "[]" "[]"] by simp

lemma MerchantDetector_detect_transaction_id:
  "snd (MerchantDetector_detect e tx) = Inr d \<Longrightarrow> MerchantDetection.transaction_id d = tx_id tx"
  using merchant_of_reply_success [of e tx _ d] by (auto simp: MerchantDetector_detect_result)

lemma successes_in_input_order:
  "map MerchantDetection.transaction_id
     (List.map_filter (\<lambda>tx. case snd (MerchantDetector_detect e tx) of Inl err \<Rightarrow> None | Inr d \<Rightarrow> Some d) txs) =
   map tx_id (filter (\<lambda>tx. \<not> isl (snd (MerchantDetector_detect e tx))) txs)"
proof (induction txs)
  case Nil
  then show ?case by simp
next
  case (Cons tx txs)
  show ?case
  proof (cases "snd (MerchantDetector_detect e tx)")
    case (Inl err)
    with Cons show ?thesis by simp
  next
    case (Inr d)
    with Cons MerchantDetector_detect_transaction_id [OF Inr] show ?thesis
      by simp
  qed
qed

section \<open>Claims\<close>

subsection \<open>C1: a standard deviation of zero\<close>

text \<open>
  C1, as stated, fails on \<^verbatim>\<open>AnomalyDetector.detect\<close>. For the historical amounts
  10, 10, 10, whose standard deviation is computed as exactly 0 (float arithmetic is
  exact on these numbers), and the new amount 50, which differs from the mean 10, the
  detector answers not anomalous with score 0: its branch for a zero deviation returns
  the same result for every amount.
\<close>

theorem constant_history_not_flagged:
  "snd (AnomalyDetector_detect exact_lib anomaly_threshold (sample_tx 50) (map Finite [10, 10, 10])) =
     Inr \<lparr>AnomalyDetection.transaction_id = ''tx-12345'', is_anomaly = False,
          anomaly_score = Finite 0, confidence = Finite 0.50,
          reasons = [Text ''All historical amounts are identical'']\<rparr>
   \<and> feq (np_std exact_lib (map Finite [10, 10, 10])) (Finite 0)
   \<and> \<not> feq (amount (sample_tx 50)) (np_mean exact_lib (map Finite [10, 10, 10]))"
proof -
  have s: "feq (np_std exact_lib (map Finite [10, 10, 10])) (Finite 0)"
    by (simp add: np_constant feq_def)
  have "3 \<le> length (map Finite [10, 10, 10 :: real])" by simp
  from detect_identical [OF this s] s show ?thesis
    by (simp add: np_constant sample_tx_def feq_def)
qed

text \<open>
  C1, amended. With at least three historical amounts whose standard deviation, as the
  library computes it, compares equal to zero, \<^verbatim>\<open>detect_anomaly_zscore\<close> of the simple
  service reports an anomaly if and only if the amount differs from the computed mean,
  with score 1 when it does and 0 when it does not (and a reason naming the amount and
  the mean when it does), while \<^verbatim>\<open>AnomalyDetector.detect\<close> always returns not anomalous,
  score 0, confidence 0.50 and the reason "All historical amounts are identical". This
  holds whatever the libraries compute; equal amounts whose computed deviation is not
  exactly zero do not reach this branch.
\<close>

theorem zero_deviation_results:
  assumes "3 \<le> length hs"
  shows "(\<forall>m s. statistics_mean l hs = Inr m \<and> statistics_stdev l hs = Inr s \<and>
                 feq s (Finite 0) \<longrightarrow>
            detect_anomaly_zscore l a hs =
              Inr (\<not> feq a m, if \<not> feq a m then Finite 1 else Finite 0,
                   if \<not> feq a m then Some (DiffersFromConstant a m) else None))
         \<and> (feq (np_std l hs) (Finite 0) \<longrightarrow>
            snd (AnomalyDetector_detect l thr tx hs) =
              Inr \<lparr>AnomalyDetection.transaction_id = tx_id tx, is_anomaly = False,
                   anomaly_score = Finite 0, confidence = Finite 0.50,
                   reasons = [Text ''All historical amounts are identical'']\<rparr>)"
  using zscore_constant [OF assms] detect_identical [OF assms] by simp

text \<open>The amended C1 at the historical amounts 10, 10, 10 and the new amounts 50 and 10.\<close>

theorem zero_deviation_results_witness:
  "3 \<le> length (map Finite [10, 10, 10 :: real])
   \<and> statistics_mean exact_lib (map Finite [10, 10, 10]) = Inr (Finite 10)
   \<and> statistics_stdev exact_lib (map Finite [10, 10, 10]) = Inr (Finite 0)
   \<and> feq (Finite 0) (Finite 0)
   \<and> detect_anomaly_zscore exact_lib (Finite 50) (map Finite [10, 10, 10]) =
       Inr (True, Finite 1, Some (DiffersFromConstant (Finite 50) (Finite 10)))
   \<and> detect_anomaly_zscore exact_lib (Finite 10) (map Finite [10, 10, 10]) =
       Inr (False, Finite 0, None)
   \<and> feq (np_std exact_lib (map Finite [10, 10, 10])) (Finite 0)
   \<and> snd (AnomalyDetector_detect exact_lib anomaly_threshold (sample_tx 50) (map Finite [10, 10, 10])) =
       Inr \<lparr>AnomalyDetection.transaction_id = ''tx-12345'', is_anomaly = False,
            anomaly_score = Finite 0, confidence = Finite 0.50,
            reasons = [Text ''All historical amounts are identical'']\<rparr>"
proof -
  have h: "3 \<le> length (map Finite [10, 10, 10 :: real])" by simp
  show ?thesis
    using h zero_deviation_results [OF h, of exact_lib "Finite 50" anomaly_threshold "sample_tx 50"]
      zero_deviation_results [OF h, of exact_lib "Finite 10" anomaly_threshold "sample_tx 50"]
    by (simp add: statistics_constant np_constant sample_tx_def feq_def)
qed

subsection \<open>C2: descriptions with a known pattern\<close>

text \<open>
  C2, as stated, fails on \<^verbatim>\<open>MerchantDetector.detect\<close>, which has no pattern table and
  asks the model for every transaction. The description "STARBUCKS #1234 SEATTLE WA"
  contains the pattern STARBUCKS; with a provider that fails, the detector issues the
  request all the same and returns the failure, not the merchant "starbucks".
\<close>

theorem MerchantDetector_asks_the_model_for_starbucks:
  "contains ''STARBUCKS'' (description (sample_tx 4.99))
   \<and> MerchantDetector_detect (failing APIError) (sample_tx 4.99) =
       ([LogInfo ''merchant_detection_started'' (Some ''tx-12345''),
         LLMCall openai (MerchantPrompt (sample_tx 4.99)),
         LogError ''merchant_detection_failed'' ''tx-12345'' APIError],
        Inl APIError)"
  by (simp add: MerchantDetector_detect_def MerchantDetector_detect_with_openai_def
      merchant_of_reply_def failing_def sample_tx_def)

text \<open>
  C2, amended. In the simple service, for every transaction whose description, as
  \<^verbatim>\<open>str.upper\<close> returns it, contains a pattern of \<^verbatim>\<open>MERCHANT_PATTERNS\<close>,
  \<^verbatim>\<open>detect_merchant_simple\<close> returns the canonical merchant of the first pattern, in the
  order of the table, that occurs in the upper-cased description, with confidence 0.95,
  and the endpoint tags the result "pattern-matching"; that service has no model to
  call. "STARBUCKS #1234", which upper-casing leaves as it is, gives "starbucks".
  \<^verbatim>\<open>MerchantDetector.detect\<close> issues exactly one request to the model for every
  transaction, such descriptions included.
\<close>

theorem pattern_match_by_variant:
  assumes "(p, m) \<in> set MERCHANT_PATTERNS"
    and "contains p (str_upper l (description tx))"
  shows "(\<exists>i<length MERCHANT_PATTERNS.
            contains (fst (MERCHANT_PATTERNS ! i)) (str_upper l (description tx)) \<and>
            (\<forall>j<i. \<not> contains (fst (MERCHANT_PATTERNS ! j)) (str_upper l (description tx))) \<and>
            detect_merchant_simple l (description tx) = (snd (MERCHANT_PATTERNS ! i), 0.95) \<and>
            detect_merchant l tx =
              \<lparr>MerchantDetectionResponse.merchant = snd (MERCHANT_PATTERNS ! i),
               confidence = 0.95, method_tag = ''pattern-matching''\<rparr>)
         \<and> (str_upper l ''STARBUCKS #1234'' = ''STARBUCKS #1234'' \<longrightarrow>
              detect_merchant_simple l ''STARBUCKS #1234'' = (''starbucks'', 0.95))
         \<and> llm_calls (fst (MerchantDetector_detect e tx)) = [(llm_provider e, MerchantPrompt tx)]"
proof (intro conjI)
  from assms have "\<exists>p m. (p, m) \<in> set MERCHANT_PATTERNS \<and> contains p (str_upper l (description tx))"
    by blast
  from match_patterns_first [OF this]
  obtain i where i: "i < length MERCHANT_PATTERNS"
    "contains (fst (MERCHANT_PATTERNS ! i)) (str_upper l (description tx))"
    "\<forall>j<i. \<not> contains (fst (MERCHANT_PATTERNS ! j)) (str_upper l (description tx))"
    "match_patterns MERCHANT_PATTERNS (str_upper l (description tx)) = Some (snd (MERCHANT_PATTERNS ! i))"
    by blast
  from i(4) have simple: "detect_merchant_simple l (description tx) = (snd (MERCHANT_PATTERNS ! i), 0.95)"
    by (simp add: detect_merchant_simple_def)
  then have "detect_merchant l tx =
      \<lparr>MerchantDetectionResponse.merchant = snd (MERCHANT_PATTERNS ! i),
       confidence = 0.95, method_tag = ''pattern-matching''\<rparr>"
    by (simp add: detect_merchant_def)
  with i(1,2,3) simple
  show "\<exists>i<length MERCHANT_PATTERNS.
            contains (fst (MERCHANT_PATTERNS ! i)) (str_upper l (description tx)) \<and>
            (\<forall>j<i. \<not> contains (fst (MERCHANT_PATTERNS ! j)) (str_upper l (description tx))) \<and>
            detect_merchant_simple l (description tx) = (snd (MERCHANT_PATTERNS ! i), 0.95) \<and>
            detect_merchant l tx =
              \<lparr>MerchantDetectionResponse.merchant = snd (MERCHANT_PATTERNS ! i),
               confidence = 0.95, method_tag = ''pattern-matching''\<rparr>"
    by blast
next
  show "str_upper l ''STARBUCKS #1234'' = ''STARBUCKS #1234'' \<longrightarrow>
              detect_merchant_simple l ''STARBUCKS #1234'' = (''starbucks'', 0.95)"
    using starbucks_example by blast
qed (rule MerchantDetector_calls_once)

text \<open>The amended C2 at the description "Uber trip via amazon pay", which contains UBER
  after upper-casing: AMAZON stands before UBER in the table and occurs too, so the
  merchant is "amazon".\<close>

theorem pattern_match_by_variant_witness:
  "(''UBER'', ''uber'') \<in> set MERCHANT_PATTERNS
   \<and> str_upper exact_lib ''Uber trip via amazon pay'' = ''UBER TRIP VIA AMAZON PAY''
   \<and> contains ''UBER'' (str_upper exact_lib ''Uber trip via amazon pay'')
   \<and> detect_merchant_simple exact_lib ''Uber trip via amazon pay'' = (''amazon'', 0.95)
   \<and> str_upper exact_lib ''STARBUCKS #1234'' = ''STARBUCKS #1234''
   \<and> detect_merchant_simple exact_lib ''STARBUCKS #1234'' = (''starbucks'', 0.95)
   \<and> llm_calls (fst (MerchantDetector_detect garbled
         \<lparr>tx_id = ''tx-7'', description = ''Uber trip via amazon pay'', amount = Finite 12,
          date = ''2024-03-20'', bank = None\<rparr>)) =
       [(openai, MerchantPrompt \<lparr>tx_id = ''tx-7'', description = ''Uber trip via amazon pay'',
          amount = Finite 12, date = ''2024-03-20'', bank = None\<rparr>)]"
proof -
  have h1: "(''UBER'', ''uber'') \<in> set MERCHANT_PATTERNS"
    by (simp add: MERCHANT_PATTERNS_def)
  have u: "str_upper exact_lib ''Uber trip via amazon pay'' = ''UBER TRIP VIA AMAZON PAY''"
    by (simp add: exact_lib_def ascii_upper_char_def)
  have s: "str_upper exact_lib ''STARBUCKS #1234'' = ''STARBUCKS #1234''"
    by (simp add: exact_lib_def ascii_upper_char_def)
  have h2: "contains ''UBER'' (str_upper exact_lib
      (description \<lparr>tx_id = ''tx-7'', description = ''Uber trip via amazon pay'',
         amount = Finite 12, date = ''2024-03-20'', bank = None\<rparr>))"
    by (simp add: u)
  have h4: "detect_merchant_simple exact_lib ''Uber trip via amazon pay'' = (''amazon'', 0.95)"
    by (simp add: detect_merchant_simple_def MERCHANT_PATTERNS_def u)
  show ?thesis
    using h1 u s h4 pattern_match_by_variant [OF h1 h2, of garbled]
    by (simp add: garbled_def)
qed

subsection \<open>C3: the label of the model in category detection\<close>

text \<open>
  C3, as stated, fails: \<^verbatim>\<open>CategoryDetector._detect_with_llm\<close> does not compare the label
  with the categories of its prompt. For the merchant "acme", which no rule knows, and a
  reply with the category "gambling", which is not among them, the detector returns a
  result with the category "gambling".
\<close>

theorem label_outside_vocabulary_accepted:
  "CategoryDetector_detect
     (replying (JObj [(''category'', JStr ''gambling''), (''confidence'', JNum 0.9)]))
     (sample_tx 25) ''acme'' =
     ([LogInfo ''category_detection_started'' (Some ''tx-12345''),
       LogInfo ''category_detection_llm_fallback'' (Some ''tx-12345''),
       LLMCall openai (CategoryPrompt (sample_tx 25) ''acme'')],
      Inr \<lparr>CategoryDetection.transaction_id = ''tx-12345'', category = ''gambling'',
           confidence = 0.9, detection_method = Method_ml, rule_id = None,
           model = Some ''gpt-4-turbo-preview'', reasoning = None\<rparr>)
   \<and> ''gambling'' \<notin> set prompt_categories"
proof -
  have "map_of CATEGORY_RULES ''acme'' = None" by (simp add: CATEGORY_RULES_def)
  from CategoryDetector_detect_fallback [OF this] show ?thesis
    by (simp add: category_of_reply_def CategoryDetection_new_def replying_def model_of_def
        sample_tx_def prompt_categories_def)
qed

text \<open>
  C3, amended. When the category detector falls back to the model (no rule for the
  merchant), the label of the reply is not validated against the category vocabulary:
  whatever string stands under "category" of the parsed reply, inside the vocabulary or
  not, is returned as the category of a result with the method "ml", provided the
  confidence is a number in \<open>[0, 1]\<close> and the reasoning, if any, is a string.
\<close>

theorem llm_category_label_unchecked:
  assumes "map_of CATEGORY_RULES merchant_name = None"
    and "complete e (llm_provider e) (CategoryPrompt tx merchant_name) = Inr content"
    and "json_loads e content = Inr (JObj items)"
    and "map_of items ''category'' = Some (JStr label)"
    and "map_of items ''confidence'' = Some (JNum c)"
    and "0 \<le> c" and "c \<le> 1"
    and "pydantic_opt_str (case map_of items ''reasoning'' of None \<Rightarrow> JNull | Some v \<Rightarrow> v) = Some why"
  shows "CategoryDetector_detect e tx merchant_name =
     ([LogInfo ''category_detection_started'' (Some (tx_id tx)),
       LogInfo ''category_detection_llm_fallback'' (Some (tx_id tx)),
       LLMCall (llm_provider e) (CategoryPrompt tx merchant_name)],
      Inr \<lparr>CategoryDetection.transaction_id = tx_id tx, category = label, confidence = c,
           detection_method = Method_ml, rule_id = None, model = Some (model_of e),
           reasoning = why\<rparr>)"
  unfolding CategoryDetector_detect_fallback [OF assms(1)] assms(2)
    category_of_reply_obj [OF assms(3)]
  using assms(4-8) by (simp add: CategoryDetection_new_def)

text \<open>The amended C3 at the merchant "acme" and two replies: the label "pets", outside
  the vocabulary, and the label "dining", inside it.\<close>

theorem llm_category_label_unchecked_witness:
  "map_of CATEGORY_RULES ''acme'' = None
   \<and> ''pets'' \<notin> set prompt_categories \<and> ''dining'' \<in> set prompt_categories
   \<and> snd (CategoryDetector_detect
        (replying (JObj [(''category'', JStr ''pets''), (''confidence'', JNum 0.85),
                         (''reasoning'', JStr ''a pet shop'')]))
        (sample_tx 25) ''acme'') =
       Inr \<lparr>CategoryDetection.transaction_id = ''tx-12345'', category = ''pets'',
            confidence = 0.85, detection_method = Method_ml, rule_id = None,
            model = Some ''gpt-4-turbo-preview'', reasoning = Some ''a pet shop''\<rparr>
   \<and> snd (CategoryDetector_detect
        (replying (JObj [(''category'', JStr ''dining''), (''confidence'', JNum 0.85)]))
        (sample_tx 25) ''acme'') =
       Inr \<lparr>CategoryDetection.transaction_id = ''tx-12345'', category = ''dining'',
            confidence = 0.85, detection_method = Method_ml, rule_id = None,
            model = Some ''gpt-4-turbo-preview'', reasoning = None\<rparr>"
proof -
  have h: "map_of CATEGORY_RULES ''acme'' = None" by (simp add: CATEGORY_RULES_def)
  have m: "model_of (replying v) = ''gpt-4-turbo-preview''" for v
    by (simp add: model_of_def replying_def)
  have 1: "CategoryDetector_detect
        (replying (JObj [(''category'', JStr ''pets''), (''confidence'', JNum 0.85),
                         (''reasoning'', JStr ''a pet shop'')]))
        (sample_tx 25) ''acme'' =
     ([LogInfo ''category_detection_started'' (Some (tx_id (sample_tx 25))),
       LogInfo ''category_detection_llm_fallback'' (Some (tx_id (sample_tx 25))),
       LLMCall (llm_provider (replying (JObj [(''category'', JStr ''pets''), (''confidence'', JNum 0.85),
                         (''reasoning'', JStr ''a pet shop'')]))) (CategoryPrompt (sample_tx 25) ''acme'')],
      Inr \<lparr>CategoryDetection.transaction_id = tx_id (sample_tx 25), category = ''pets'', confidence = 0.85,
           detection_method = Method_ml, rule_id = None,
           model = Some (model_of (replying (JObj [(''category'', JStr ''pets''), (''confidence'', JNum 0.85),
                         (''reasoning'', JStr ''a pet shop'')]))),
           reasoning = Some ''a pet shop''\<rparr>)"
    by (rule llm_category_label_unchecked [OF h, where content = "''(reply)''"
          and items = "[(''category'', JStr ''pets''), (''confidence'', JNum 0.85),
                         (''reasoning'', JStr ''a pet shop'')]"])
       (simp_all add: replying_def)
  have 2: "CategoryDetector_detect
        (replying (JObj [(''category'', JStr ''dining''), (''confidence'', JNum 0.85)]))
        (sample_tx 25) ''acme'' =
     ([LogInfo ''category_detection_started'' (Some (tx_id (sample_tx 25))),
       LogInfo ''category_detection_llm_fallback'' (Some (tx_id (sample_tx 25))),
       LLMCall (llm_provider (replying (JObj [(''category'', JStr ''dining''), (''confidence'', JNum 0.85)])))
         (CategoryPrompt (sample_tx 25) ''acme'')],
      Inr \<lparr>CategoryDetection.transaction_id = tx_id (sample_tx 25), category = ''dining'', confidence = 0.85,
           detection_method = Method_ml, rule_id = None,
           model = Some (model_of (replying (JObj [(''category'', JStr ''dining''), (''confidence'', JNum 0.85)]))),
           reasoning = None\<rparr>)"
    by (rule llm_category_label_unchecked [OF h, where content = "''(reply)''"
          and items = "[(''category'', JStr ''dining''), (''confidence'', JNum 0.85)]"])
       (simp_all add: replying_def)
  show ?thesis
    unfolding 1 2 m using h by (simp add: prompt_categories_def sample_tx_def)
qed

subsection \<open>C4: fewer than three historical amounts\<close>

text \<open>
  C4, as stated, fails on the simple service. With two historical amounts the endpoint
  \<^verbatim>\<open>detect_anomaly\<close> of \<^verbatim>\<open>ml-service/main.py\<close> answers not anomalous, score 0 and the
  reason of too little data, but with confidence 0.60, which is above 0.5: there the
  confidence is chosen by the sample size alone (0.85 from ten points on, 0.60 below).
\<close>

theorem insufficient_history_endpoint_confidence:
  "detect_anomaly exact_lib
     \<lparr>transaction = sample_tx 50, historical_amounts = [Finite 10, Finite 12]\<rparr> =
     Inr \<lparr>AnomalyDetectionResponse.is_anomaly = False, anomaly_score = Finite 0,
          confidence = Finite 0.60, method_tag = ''zscore'',
          reason = Some (Text ''Insufficient historical data'')\<rparr>
   \<and> \<not> fle (Finite 0.60) (Finite 0.5)"
  by (simp add: detect_anomaly_def zscore_insufficient)

text \<open>
  C4, amended. With fewer than three historical amounts, whatever the transaction, the
  threshold and the libraries, every scorer returns a result and raises nothing:
  \<^verbatim>\<open>AnomalyDetector.detect\<close> returns not anomalous, score 0, confidence 0.10 and the one
  reason "Not enough historical data (need >= 3 transactions)";
  \<^verbatim>\<open>detect_anomaly_zscore\<close> returns not anomalous, score 0 and the reason "Insufficient
  historical data", to which its endpoint adds the confidence 0.60.
\<close>

theorem insufficient_history_results:
  assumes "length hs < 3"
  shows "snd (AnomalyDetector_detect l thr tx hs) =
           Inr \<lparr>AnomalyDetection.transaction_id = tx_id tx, is_anomaly = False,
                anomaly_score = Finite 0, confidence = Finite 0.10,
                reasons = [Text ''Not enough historical data (need >= 3 transactions)'']\<rparr>
         \<and> detect_anomaly_zscore l (amount tx) hs =
           Inr (False, Finite 0, Some (Text ''Insufficient historical data''))
         \<and> detect_anomaly l \<lparr>transaction = tx, historical_amounts = hs\<rparr> =
           Inr \<lparr>AnomalyDetectionResponse.is_anomaly = False, anomaly_score = Finite 0,
                confidence = Finite 0.60, method_tag = ''zscore'',
                reason = Some (Text ''Insufficient historical data'')\<rparr>"
proof -
  have "\<not> 10 \<le> length hs" using assms by simp
  then show ?thesis
    by (simp add: detect_insufficient [OF assms] zscore_insufficient [OF assms]
        detect_anomaly_def)
qed

text \<open>The amended C4 at the historical amounts 10 and 12 and the new amount 500.\<close>

theorem insufficient_history_results_witness:
  "length [Finite 10, Finite 12] < 3
   \<and> snd (AnomalyDetector_detect exact_lib anomaly_threshold (sample_tx 500)
            [Finite 10, Finite 12]) =
       Inr \<lparr>AnomalyDetection.transaction_id = ''tx-12345'', is_anomaly = False,
            anomaly_score = Finite 0, confidence = Finite 0.10,
            reasons = [Text ''Not enough historical data (need >= 3 transactions)'']\<rparr>
   \<and> detect_anomaly_zscore exact_lib (Finite 500) [Finite 10, Finite 12] =
       Inr (False, Finite 0, Some (Text ''Insufficient historical data''))"
proof -
  have h: "length [Finite 10, Finite 12] < 3" by simp
  show ?thesis
    using h insufficient_history_results [OF h, of exact_lib anomaly_threshold "sample_tx 500"]
    by (simp add: sample_tx_def)
qed

subsection \<open>C5: the z-score and its threshold\<close>



subsection \<open>C6: confidence in the z-score branch\<close>

text \<open>
  C6, as stated, fails on \<^verbatim>\<open>AnomalyDetector.detect\<close>: the confidence is not raised by a
  sample of ten points. The amount 4 against ten historical amounts (five times 0, five
  times 4) and against four of them (0, 4, 0, 4) has the z-score 1 both times, and the
  detector returns the same confidence 0.60 for both.
\<close>

theorem no_sample_size_boost:
  "snd (AnomalyDetector_detect exact_lib anomaly_threshold (sample_tx 4)
          (map Finite [0, 0, 0, 0, 0, 4, 4, 4, 4, 4])) =
     Inr \<lparr>AnomalyDetection.transaction_id = ''tx-12345'', is_anomaly = False,
          anomaly_score = Finite 1, confidence = Finite 0.60, reasons = []\<rparr>
   \<and> snd (AnomalyDetector_detect exact_lib anomaly_threshold (sample_tx 4)
          (map Finite [0, 4, 0, 4])) =
     Inr \<lparr>AnomalyDetection.transaction_id = ''tx-12345'', is_anomaly = False,
          anomaly_score = Finite 1, confidence = Finite 0.60, reasons = []\<rparr>
   \<and> 10 \<le> length (map Finite [0, 0, 0, 0, 0, 4, 4, 4, 4, 4 :: real])
   \<and> length (map Finite [0, 4, 0, 4 :: real]) < 10"
proof -
  have r: "rounding (rnd exact_lib)" by (simp add: rnd_exact_lib rounding_exact_rnd)
  have z4: "Finite 1 = fabs (fdiv (rnd exact_lib)
      (fsub (rnd exact_lib) (amount (sample_tx 4)) (np_mean exact_lib [Finite 0, Finite 4, Finite 0, Finite 4]))
      (np_std exact_lib [Finite 0, Finite 4, Finite 0, Finite 4]))"
    by (simp add: np_two_level_4 sample_tx_def fsub_def rnd_exact_lib exact_rnd_small)
  have z10: "Finite 1 = fabs (fdiv (rnd exact_lib)
      (fsub (rnd exact_lib) (amount (sample_tx 4))
         (np_mean exact_lib [Finite 0, Finite 0, Finite 0, Finite 0, Finite 0,
                             Finite 4, Finite 4, Finite 4, Finite 4, Finite 4]))
      (np_std exact_lib [Finite 0, Finite 0, Finite 0, Finite 0, Finite 0,
                         Finite 4, Finite 4, Finite 4, Finite 4, Finite 4]))"
    by (simp add: np_two_level_10 sample_tx_def fsub_def rnd_exact_lib exact_rnd_small)
  have ne4: "\<not> feq (np_std exact_lib [Finite 0, Finite 4, Finite 0, Finite 4]) (Finite 0)"
    by (simp add: np_two_level_4 feq_def)
  have ne10: "\<not> feq (np_std exact_lib [Finite 0, Finite 0, Finite 0, Finite 0, Finite 0,
                         Finite 4, Finite 4, Finite 4, Finite 4, Finite 4]) (Finite 0)"
    by (simp add: np_two_level_10 feq_def)
  have a: "\<not> flt anomaly_threshold (Finite 1)" by (simp add: anomaly_threshold_def)
  have t: "tx_id (sample_tx 4) = ''tx-12345''" by (simp add: sample_tx_def)
  have 1: "snd (AnomalyDetector_detect exact_lib anomaly_threshold (sample_tx 4)
          [Finite 0, Finite 4, Finite 0, Finite 4]) =
     Inr \<lparr>AnomalyDetection.transaction_id = ''tx-12345'', is_anomaly = False,
          anomaly_score = Finite 1, confidence = Finite 0.60, reasons = []\<rparr>"
    using detect_zscore [OF _ ne4 r z4, of anomaly_threshold] a
    by (simp add: t rnd_exact_lib exact_rnd_small py_min_def)
  have 2: "snd (AnomalyDetector_detect exact_lib anomaly_threshold (sample_tx 4)
          [Finite 0, Finite 0, Finite 0, Finite 0, Finite 0,
           Finite 4, Finite 4, Finite 4, Finite 4, Finite 4]) =
     Inr \<lparr>AnomalyDetection.transaction_id = ''tx-12345'', is_anomaly = False,
          anomaly_score = Finite 1, confidence = Finite 0.60, reasons = []\<rparr>"
    using detect_zscore [OF _ ne10 r z10, of anomaly_threshold] a
    by (simp add: t rnd_exact_lib exact_rnd_small py_min_def)
  from 1 2 show ?thesis by simp
qed

text \<open>
  C6, amended. In the z-score branch of \<^verbatim>\<open>AnomalyDetector.detect\<close> (at least three
  amounts, computed deviation not zero) the confidence is \<open>min(0.99, 0.50 + z / 10)\<close> in
  float arithmetic: a function of the z-score alone, at most 0.99, and not smaller for
  a greater z-score, also across samples of different sizes. The endpoint of the simple
  service does not look at the z-score: whenever it answers, its confidence is 0.85 for
  a sample of at least ten points and 0.60 otherwise. For the ten amounts 10, 12, 11, 9,
  10, 13, 10, 11, 9, 12 and the new amount 500, \<^verbatim>\<open>AnomalyDetector.detect\<close> reports an
  anomaly with confidence 0.99 as soon as the computed mean lies between 10 and 11 and
  the computed deviation is positive and at most 2, and the endpoint answers with
  confidence 0.85 as soon as the statistics return.
\<close>

theorem confidence_rules:
  assumes "rounding (rnd l)"
    and "3 \<le> length hs1" and "\<not> feq (np_std l hs1) (Finite 0)"
    and "3 \<le> length hs2" and "\<not> feq (np_std l hs2) (Finite 0)"
  shows "(\<exists>d1 d2. snd (AnomalyDetector_detect l thr tx1 hs1) = Inr d1 \<and>
                 snd (AnomalyDetector_detect l thr tx2 hs2) = Inr d2 \<and>
                 AnomalyDetection.anomaly_score d1 =
                   fabs (fdiv (rnd l) (fsub (rnd l) (amount tx1) (np_mean l hs1)) (np_std l hs1)) \<and>
                 AnomalyDetection.confidence d1 =
                   py_min (Finite 0.99)
                     (fadd (rnd l) (Finite 0.50)
                        (fdiv (rnd l) (AnomalyDetection.anomaly_score d1) (Finite 10))) \<and>
                 fle (AnomalyDetection.confidence d1) (Finite 0.99) \<and>
                 (fle (AnomalyDetection.anomaly_score d1) (AnomalyDetection.anomaly_score d2) \<longrightarrow>
                    fle (AnomalyDetection.confidence d1) (AnomalyDetection.confidence d2)))
         \<and> (\<forall>resp. detect_anomaly l req = Inr resp \<longrightarrow>
                 AnomalyDetectionResponse.confidence resp =
                   (if 10 \<le> length (historical_amounts req) then Finite 0.85 else Finite 0.60))
         \<and> (\<forall>m s. np_mean l ten_point_history = Finite m \<and> 10 \<le> m \<and> m \<le> 11 \<and>
                  np_std l ten_point_history = Finite s \<and> 0 < s \<and> s \<le> 2 \<longrightarrow>
                (\<exists>d. snd (AnomalyDetector_detect l anomaly_threshold (sample_tx 500)
                            ten_point_history) = Inr d \<and>
                     AnomalyDetection.is_anomaly d \<and>
                     AnomalyDetection.confidence d = Finite 0.99))
         \<and> (\<forall>m s. statistics_mean l ten_point_history = Inr m \<and>
                  statistics_stdev l ten_point_history = Inr s \<longrightarrow>
                (\<exists>resp. detect_anomaly l
                           \<lparr>transaction = sample_tx 500, historical_amounts = ten_point_history\<rparr> =
                         Inr resp \<and>
                       AnomalyDetectionResponse.confidence resp = Finite 0.85))"
proof (intro conjI)
  from detect_zscore_fields [OF assms(2,3,1) refl, of thr tx1]
  obtain d1 where d1: "snd (AnomalyDetector_detect l thr tx1 hs1) = Inr d1"
    and sc1: "AnomalyDetection.anomaly_score d1 =
      fabs (fdiv (rnd l) (fsub (rnd l) (amount tx1) (np_mean l hs1)) (np_std l hs1))"
    and cf1: "AnomalyDetection.confidence d1 =
       py_min (Finite 0.99) (fadd (rnd l) (Finite 0.50)
         (fdiv (rnd l) (fabs (fdiv (rnd l) (fsub (rnd l) (amount tx1) (np_mean l hs1)) (np_std l hs1)))
            (Finite 10)))"
    by blast
  from detect_zscore_fields [OF assms(4,5,1) refl, of thr tx2]
  obtain d2 where d2: "snd (AnomalyDetector_detect l thr tx2 hs2) = Inr d2"
    and sc2: "AnomalyDetection.anomaly_score d2 =
      fabs (fdiv (rnd l) (fsub (rnd l) (amount tx2) (np_mean l hs2)) (np_std l hs2))"
    and cf2: "AnomalyDetection.confidence d2 =
       py_min (Finite 0.99) (fadd (rnd l) (Finite 0.50)
         (fdiv (rnd l) (fabs (fdiv (rnd l) (fsub (rnd l) (amount tx2) (np_mean l hs2)) (np_std l hs2)))
            (Finite 10)))"
    by blast
  have f1: "AnomalyDetection.confidence d1 =
      py_min (Finite 0.99) (fadd (rnd l) (Finite 0.50)
        (fdiv (rnd l) (AnomalyDetection.anomaly_score d1) (Finite 10)))"
    unfolding sc1 by (rule cf1)
  have f2: "AnomalyDetection.confidence d2 =
      py_min (Finite 0.99) (fadd (rnd l) (Finite 0.50)
        (fdiv (rnd l) (AnomalyDetection.anomaly_score d2) (Finite 10)))"
    unfolding sc2 by (rule cf2)
  have cap: "fle (AnomalyDetection.confidence d1) (Finite 0.99)"
    unfolding f1 by (rule py_min_upper)
  have mono: "fle (AnomalyDetection.anomaly_score d1) (AnomalyDetection.anomaly_score d2) \<longrightarrow>
       fle (AnomalyDetection.confidence d1) (AnomalyDetection.confidence d2)"
    unfolding f1 f2 by (rule impI) (rule confidence_mono [OF assms(1)])
  from d1 d2 sc1 f1 cap mono
  show "\<exists>d1 d2. snd (AnomalyDetector_detect l thr tx1 hs1) = Inr d1 \<and>
                 snd (AnomalyDetector_detect l thr tx2 hs2) = Inr d2 \<and>
                 AnomalyDetection.anomaly_score d1 =
                   fabs (fdiv (rnd l) (fsub (rnd l) (amount tx1) (np_mean l hs1)) (np_std l hs1)) \<and>
                 AnomalyDetection.confidence d1 =
                   py_min (Finite 0.99)
                     (fadd (rnd l) (Finite 0.50)
                        (fdiv (rnd l) (AnomalyDetection.anomaly_score d1) (Finite 10))) \<and>
                 fle (AnomalyDetection.confidence d1) (Finite 0.99) \<and>
                 (fle (AnomalyDetection.anomaly_score d1) (AnomalyDetection.anomaly_score d2) \<longrightarrow>
                    fle (AnomalyDetection.confidence d1) (AnomalyDetection.confidence d2))"
    by (intro exI conjI)
next
  show "\<forall>resp. detect_anomaly l req = Inr resp \<longrightarrow>
                 AnomalyDetectionResponse.confidence resp =
                   (if 10 \<le> length (historical_amounts req) then Finite 0.85 else Finite 0.60)"
    using detect_anomaly_confidence by blast
next
  show "\<forall>m s. np_mean l ten_point_history = Finite m \<and> 10 \<le> m \<and> m \<le> 11 \<and>
                  np_std l ten_point_history = Finite s \<and> 0 < s \<and> s \<le> 2 \<longrightarrow>
                (\<exists>d. snd (AnomalyDetector_detect l anomaly_threshold (sample_tx 500)
                            ten_point_history) = Inr d \<and>
                     AnomalyDetection.is_anomaly d \<and>
                     AnomalyDetection.confidence d = Finite 0.99)"
    using ten_point_AnomalyDetector [OF assms(1)] by blast
next
  show "\<forall>m s. statistics_mean l ten_point_history = Inr m \<and>
                  statistics_stdev l ten_point_history = Inr s \<longrightarrow>
                (\<exists>resp. detect_anomaly l
                           \<lparr>transaction = sample_tx 500, historical_amounts = ten_point_history\<rparr> =
                         Inr resp \<and>
                       AnomalyDetectionResponse.confidence resp = Finite 0.85)"
    using ten_point_endpoint by blast
qed

text \<open>The amended C6 at the samples 0, 4, 0, 4 (amount 4, z-score 1) and five times 0,
  five times 4 (amount 8, z-score 3), and at the ten amounts, whose mean is 10.7 and
  whose deviation is the root of 1.61.\<close>

theorem confidence_rules_witness:
  "rounding (rnd exact_lib)
   \<and> 3 \<le> length (map Finite [0, 4, 0, 4 :: real])
   \<and> \<not> feq (np_std exact_lib (map Finite [0, 4, 0, 4])) (Finite 0)
   \<and> 3 \<le> length (map Finite [0, 0, 0, 0, 0, 4, 4, 4, 4, 4 :: real])
   \<and> \<not> feq (np_std exact_lib (map Finite [0, 0, 0, 0, 0, 4, 4, 4, 4, 4])) (Finite 0)
   \<and> (\<exists>d1 d2. snd (AnomalyDetector_detect exact_lib anomaly_threshold (sample_tx 4)
                     (map Finite [0, 4, 0, 4])) = Inr d1 \<and>
         snd (AnomalyDetector_detect exact_lib anomaly_threshold (sample_tx 8)
                (map Finite [0, 0, 0, 0, 0, 4, 4, 4, 4, 4])) = Inr d2 \<and>
         AnomalyDetection.anomaly_score d1 = Finite 1 \<and>
         AnomalyDetection.anomaly_score d2 = Finite 3 \<and>
         fle (AnomalyDetection.confidence d1) (AnomalyDetection.confidence d2))
   \<and> np_mean exact_lib ten_point_history = Finite (107 / 10)
   \<and> np_std exact_lib ten_point_history = Finite (sqrt (161 / 100))
   \<and> 0 < sqrt (161 / 100 :: real) \<and> sqrt (161 / 100 :: real) \<le> 2
   \<and> (\<exists>d. snd (AnomalyDetector_detect exact_lib anomaly_threshold (sample_tx 500)
                 ten_point_history) = Inr d \<and>
           AnomalyDetection.is_anomaly d \<and> AnomalyDetection.confidence d = Finite 0.99)"
proof -
  have r: "rounding (rnd exact_lib)" by (simp add: rnd_exact_lib rounding_exact_rnd)
  have h1: "3 \<le> length [Finite 0, Finite 4, Finite 0, Finite 4]" by simp
  have h2: "\<not> feq (np_std exact_lib [Finite 0, Finite 4, Finite 0, Finite 4]) (Finite 0)"
    by (simp add: np_two_level_4 feq_def)
  have h3: "3 \<le> length [Finite 0, Finite 0, Finite 0, Finite 0, Finite 0,
                          Finite 4, Finite 4, Finite 4, Finite 4, Finite 4]" by simp
  have h4: "\<not> feq (np_std exact_lib [Finite 0, Finite 0, Finite 0, Finite 0, Finite 0,
                          Finite 4, Finite 4, Finite 4, Finite 4, Finite 4]) (Finite 0)"
    by (simp add: np_two_level_10 feq_def)
  note inst = confidence_rules [OF r h1 h2 h3 h4, of anomaly_threshold "sample_tx 4" "sample_tx 8"]
  from inst [THEN conjunct1]
  obtain d1 d2 where
      d1: "snd (AnomalyDetector_detect exact_lib anomaly_threshold (sample_tx 4)
             [Finite 0, Finite 4, Finite 0, Finite 4]) = Inr d1"
      and d2: "snd (AnomalyDetector_detect exact_lib anomaly_threshold (sample_tx 8)
             [Finite 0, Finite 0, Finite 0, Finite 0, Finite 0,
              Finite 4, Finite 4, Finite 4, Finite 4, Finite 4]) = Inr d2"
      and s1: "AnomalyDetection.anomaly_score d1 =
         fabs (fdiv (rnd exact_lib)
           (fsub (rnd exact_lib) (amount (sample_tx 4))
              (np_mean exact_lib [Finite 0, Finite 4, Finite 0, Finite 4]))
           (np_std exact_lib [Finite 0, Finite 4, Finite 0, Finite 4]))"
      and mono: "fle (AnomalyDetection.anomaly_score d1) (AnomalyDetection.anomaly_score d2) \<longrightarrow>
         fle (AnomalyDetection.confidence d1) (AnomalyDetection.confidence d2)"
    by blast
  have s1': "AnomalyDetection.anomaly_score d1 = Finite 1"
    unfolding s1 by (simp add: np_two_level_4 sample_tx_def fsub_def rnd_exact_lib exact_rnd_small)
  have s2': "AnomalyDetection.anomaly_score d2 = Finite 3"
  proof -
    from detect_zscore_fields [OF h3 h4 r refl, of anomaly_threshold "sample_tx 8"] d2
    have "AnomalyDetection.anomaly_score d2 =
         fabs (fdiv (rnd exact_lib)
           (fsub (rnd exact_lib) (amount (sample_tx 8))
              (np_mean exact_lib [Finite 0, Finite 0, Finite 0, Finite 0, Finite 0,
                                  Finite 4, Finite 4, Finite 4, Finite 4, Finite 4]))
           (np_std exact_lib [Finite 0, Finite 0, Finite 0, Finite 0, Finite 0,
                              Finite 4, Finite 4, Finite 4, Finite 4, Finite 4]))"
      by auto
    then show ?thesis
      by (simp add: np_two_level_10 sample_tx_def fsub_def rnd_exact_lib exact_rnd_small)
  qed
  from mono s1' s2' have le: "fle (AnomalyDetection.confidence d1) (AnomalyDetection.confidence d2)"
    by simp
  have first: "\<exists>d1 d2. snd (AnomalyDetector_detect exact_lib anomaly_threshold (sample_tx 4)
                     (map Finite [0, 4, 0, 4])) = Inr d1 \<and>
         snd (AnomalyDetector_detect exact_lib anomaly_threshold (sample_tx 8)
                (map Finite [0, 0, 0, 0, 0, 4, 4, 4, 4, 4])) = Inr d2 \<and>
         AnomalyDetection.anomaly_score d1 = Finite 1 \<and>
         AnomalyDetection.anomaly_score d2 = Finite 3 \<and>
         fle (AnomalyDetection.confidence d1) (AnomalyDetection.confidence d2)"
    using d1 d2 s1' s2' le by auto
  have ten: "\<exists>d. snd (AnomalyDetector_detect exact_lib anomaly_threshold (sample_tx 500)
                 ten_point_history) = Inr d \<and>
           AnomalyDetection.is_anomaly d \<and> AnomalyDetection.confidence d = Finite 0.99"
  proof (rule inst [THEN conjunct2, THEN conjunct2, THEN conjunct1, rule_format,
        of "107 / 10" "sqrt (161 / 100)"])
    show "np_mean exact_lib ten_point_history = Finite (107 / 10) \<and>
        10 \<le> (107 / 10 :: real) \<and> (107 / 10 :: real) \<le> 11 \<and>
        np_std exact_lib ten_point_history = Finite (sqrt (161 / 100)) \<and>
        0 < sqrt (161 / 100 :: real) \<and> sqrt (161 / 100 :: real) \<le> 2"
      using np_ten_point sqrt_161 by simp
  qed
  from r h2 h4 first ten np_ten_point sqrt_161 show ?thesis by simp
qed

subsection \<open>C7: batch detection\<close>

text \<open>
  C7. For every list of transactions, \<^verbatim>\<open>detect_merchants_batch\<close> runs one detection per
  transaction, each with its one request to the model, and always returns a list: the
  results of the detections that succeeded, in the order of their transactions in the
  input. A detection that failed is left out of the list and logged as
  "batch_detection_error" with the identifier of its transaction and its exception; it
  stops no other detection.
\<close>

theorem batch_isolates_failures:
  "returned (detect_merchants_batch e txs) =
     Inr (List.map_filter
            (\<lambda>tx. case snd (MerchantDetector_detect e tx) of Inl err \<Rightarrow> None | Inr d \<Rightarrow> Some d) txs)
   \<and> batch_events (detect_merchants_batch e txs) =
       LogInfo ''merchant_detector_initialized'' None #
       List.map_filter
         (\<lambda>tx. case snd (MerchantDetector_detect e tx) of
                 Inl err \<Rightarrow> Some (LogError ''batch_detection_error'' (tx_id tx) err)
               | Inr d \<Rightarrow> None) txs
   \<and> task_events (detect_merchants_batch e txs) = map (\<lambda>tx. fst (MerchantDetector_detect e tx)) txs
   \<and> map llm_calls (task_events (detect_merchants_batch e txs)) =
       map (\<lambda>tx. [(llm_provider e, MerchantPrompt tx)]) txs
   \<and> map_sum id (map MerchantDetection.transaction_id) (returned (detect_merchants_batch e txs)) =
       Inr (map tx_id (filter (\<lambda>tx. \<not> isl (snd (MerchantDetector_detect e tx))) txs))"
proof -
  have c: "collect txs 0 (map snd (map (MerchantDetector_detect e) txs)) [] [] =
     Inr (List.map_filter
            (\<lambda>tx. case snd (MerchantDetector_detect e tx) of Inl err \<Rightarrow> None | Inr d \<Rightarrow> Some d) txs,
          List.map_filter
            (\<lambda>tx. case snd (MerchantDetector_detect e tx) of
                    Inl err \<Rightarrow> Some (LogError ''batch_detection_error'' (tx_id tx) err)
                  | Inr d \<Rightarrow> None) txs)"
    using collect_all [of txs "\<lambda>tx. snd (MerchantDetector_detect e tx)"]
    by (simp add: comp_def)
  show ?thesis
    unfolding detect_merchants_batch_def Let_def c
    by (simp add: comp_def MerchantDetector_calls_once successes_in_input_order)
qed

text \<open>C7 at three transactions of which the second fails: two results, for the first and
  the third, and one logged failure, for the second.\<close>

theorem batch_isolates_failures_example:
  "returned (detect_merchants_batch failing_for_tx2
      [batch_tx ''tx-1'', batch_tx ''tx-2'', batch_tx ''tx-3'']) =
     Inr [\<lparr>MerchantDetection.transaction_id = ''tx-1'', merchant = ''starbucks'',
           confidence = 0.98, model = ''claude-3-sonnet-20240229'', reasoning = None\<rparr>,
          \<lparr>MerchantDetection.transaction_id = ''tx-3'', merchant = ''starbucks'',
           confidence = 0.98, model = ''claude-3-sonnet-20240229'', reasoning = None\<rparr>]
   \<and> batch_events (detect_merchants_batch failing_for_tx2
      [batch_tx ''tx-1'', batch_tx ''tx-2'', batch_tx ''tx-3'']) =
     [LogInfo ''merchant_detector_initialized'' None,
      LogError ''batch_detection_error'' ''tx-2'' APIError]"
proof -
  have ok: "snd (MerchantDetector_detect failing_for_tx2 (batch_tx i)) =
      (if i = ''tx-2'' then Inl APIError
       else Inr \<lparr>MerchantDetection.transaction_id = i, merchant = ''starbucks'',
           confidence = 0.98, model = ''claude-3-sonnet-20240229'', reasoning = None\<rparr>)" for i
    by (simp add: MerchantDetector_detect_result merchant_of_reply_def MerchantDetection_new_def
        failing_for_tx2_def batch_tx_def model_of_def)
  have tid: "tx_id (batch_tx i) = i" for i
    by (simp add: batch_tx_def)
  show ?thesis
    using batch_isolates_failures [of failing_for_tx2
        "[batch_tx ''tx-1'', batch_tx ''tx-2'', batch_tx ''tx-3'']"]
    by (simp add: ok tid)
qed

subsection \<open>C8: a failing request of the merchant detector\<close>

text \<open>
  C8. When the request of \<^verbatim>\<open>MerchantDetector.detect\<close> fails, because the provider's call
  raises, because the reply does not parse, or because the parsed object lacks the key
  "merchant" or "confidence", the detector logs the failure and returns that same
  exception to its caller. It substitutes nothing: whenever it returns a result, the
  merchant and the confidence of the result are the values under those keys of the
  parsed reply.
\<close>

theorem classifier_failure_propagates:
  "(complete e (llm_provider e) (MerchantPrompt tx) = Inl err
      \<or> (\<exists>content. complete e (llm_provider e) (MerchantPrompt tx) = Inr content \<and>
            (json_loads e content = Inl err
             \<or> (\<exists>items. json_loads e content = Inr (JObj items) \<and>
                   (map_of items ''merchant'' = None \<and> err = KeyError ''merchant''
                    \<or> map_of items ''merchant'' \<noteq> None \<and> map_of items ''confidence'' = None \<and>
                      err = KeyError ''confidence''))))
    \<longrightarrow> MerchantDetector_detect e tx =
          ([LogInfo ''merchant_detection_started'' (Some (tx_id tx)),
            LLMCall (llm_provider e) (MerchantPrompt tx),
            LogError ''merchant_detection_failed'' (tx_id tx) err],
           Inl err))
   \<and> (\<forall>d. snd (MerchantDetector_detect e tx) = Inr d \<longrightarrow>
          (\<exists>content items c.
              complete e (llm_provider e) (MerchantPrompt tx) = Inr content \<and>
              json_loads e content = Inr (JObj items) \<and>
              map_of items ''merchant'' = Some (JStr (MerchantDetection.merchant d)) \<and>
              map_of items ''confidence'' = Some c \<and>
              pydantic_float e c = Some (MerchantDetection.confidence d)))"
proof (intro conjI impI allI)
  assume "complete e (llm_provider e) (MerchantPrompt tx) = Inl err
      \<or> (\<exists>content. complete e (llm_provider e) (MerchantPrompt tx) = Inr content \<and>
            (json_loads e content = Inl err
             \<or> (\<exists>items. json_loads e content = Inr (JObj items) \<and>
                   (map_of items ''merchant'' = None \<and> err = KeyError ''merchant''
                    \<or> map_of items ''merchant'' \<noteq> None \<and> map_of items ''confidence'' = None \<and>
                      err = KeyError ''confidence''))))"
  then have "merchant_of_reply e tx (complete e (llm_provider e) (MerchantPrompt tx)) = Inl err"
  proof (elim disjE exE conjE)
    assume "complete e (llm_provider e) (MerchantPrompt tx) = Inl err"
    then show ?thesis by (simp add: merchant_of_reply_transport)
  next
    fix content
    assume "complete e (llm_provider e) (MerchantPrompt tx) = Inr content"
      "json_loads e content = Inl err"
    then show ?thesis by (simp add: merchant_of_reply_unparseable)
  next
    fix content items
    assume "complete e (llm_provider e) (MerchantPrompt tx) = Inr content"
      "json_loads e content = Inr (JObj items)" "map_of items ''merchant'' = None"
      "err = KeyError ''merchant''"
    then show ?thesis by (simp add: merchant_of_reply_no_merchant)
  next
    fix content items
    assume a: "complete e (llm_provider e) (MerchantPrompt tx) = Inr content"
      "json_loads e content = Inr (JObj items)" "map_of items ''merchant'' \<noteq> None"
      "map_of items ''confidence'' = None" "err = KeyError ''confidence''"
    from a(3) obtain m where "map_of items ''merchant'' = Some m" by blast
    with a show ?thesis by (simp add: merchant_of_reply_no_confidence)
  qed
  then show "MerchantDetector_detect e tx =
          ([LogInfo ''merchant_detection_started'' (Some (tx_id tx)),
            LLMCall (llm_provider e) (MerchantPrompt tx),
            LogError ''merchant_detection_failed'' (tx_id tx) err],
           Inl err)"
    by (rule MerchantDetector_detect_failure)
next
  fix d
  assume "snd (MerchantDetector_detect e tx) = Inr d"
  then have "merchant_of_reply e tx (complete e (llm_provider e) (MerchantPrompt tx)) = Inr d"
    by (simp add: MerchantDetector_detect_result)
  from merchant_of_reply_success [OF this]
  show "\<exists>content items c.
              complete e (llm_provider e) (MerchantPrompt tx) = Inr content \<and>
              json_loads e content = Inr (JObj items) \<and>
              map_of items ''merchant'' = Some (JStr (MerchantDetection.merchant d)) \<and>
              map_of items ''confidence'' = Some c \<and>
              pydantic_float e c = Some (MerchantDetection.confidence d)"
    by blast
qed


text \<open>C8 at four environments: a provider that raises, a reply that does not parse, a
  reply without "merchant" and a reply without "confidence".\<close>

theorem classifier_failure_propagates_witness:
  "complete (failing APIError) (llm_provider (failing APIError)) (MerchantPrompt (sample_tx 4.99)) =
     Inl APIError
   \<and> MerchantDetector_detect (failing APIError) (sample_tx 4.99) =
       ([LogInfo ''merchant_detection_started'' (Some ''tx-12345''),
         LLMCall openai (MerchantPrompt (sample_tx 4.99)),
         LogError ''merchant_detection_failed'' ''tx-12345'' APIError],
        Inl APIError)
   \<and> snd (MerchantDetector_detect garbled (sample_tx 4.99)) = Inl JSONDecodeError
   \<and> snd (MerchantDetector_detect (replying (JObj [(''confidence'', JNum 0.9)])) (sample_tx 4.99)) =
       Inl (KeyError ''merchant'')
   \<and> snd (MerchantDetector_detect (replying (JObj [(''merchant'', JStr ''starbucks'')]))
            (sample_tx 4.99)) =
       Inl (KeyError ''confidence'')"
  using classifier_failure_propagates [of "failing APIError" "sample_tx 4.99" APIError]
    classifier_failure_propagates [of garbled "sample_tx 4.99" JSONDecodeError]
    classifier_failure_propagates [of "replying (JObj [(''confidence'', JNum 0.9)])"
      "sample_tx 4.99" "KeyError ''merchant''"]
    classifier_failure_propagates [of "replying (JObj [(''merchant'', JStr ''starbucks'')])"
      "sample_tx 4.99" "KeyError ''confidence''"]
  by (simp add: failing_def garbled_def replying_def sample_tx_def)

subsection \<open>C9: the category of the merchant "starbucks"\<close>

text \<open>
  C9. For every transaction and every environment, \<^verbatim>\<open>CategoryDetector.detect\<close> given the
  merchant "starbucks" returns the category "cafe" with the method "rule", the
  confidence 0.98 and the identifier "starbucks-rule" of the rule, and its run holds no
  request to the model. The simple service agrees on the category: its rule gives
  "cafe" with its fixed confidence 0.95, tagged "rules" (it has no rule identifiers).
\<close>

theorem starbucks_category_by_rule:
  "CategoryDetector_detect e tx ''starbucks'' =
     ([LogInfo ''category_detection_started'' (Some (tx_id tx)),
       LogInfo ''category_detection_rule_match'' (Some (tx_id tx))],
      Inr \<lparr>CategoryDetection.transaction_id = tx_id tx, category = ''cafe'', confidence = 0.98,
           detection_method = Method_rule, rule_id = Some ''starbucks-rule'', model = None,
           reasoning = Some (''Merchant '' @ [CHR 0x27] @ ''starbucks'' @ [CHR 0x27] @
                             '' matches rule starbucks-rule'')\<rparr>)
   \<and> llm_calls (fst (CategoryDetector_detect e tx ''starbucks'')) = []
   \<and> detect_category_simple ''starbucks'' = (''cafe'', 0.95)
   \<and> detect_category l tx (Some ''starbucks'') =
       \<lparr>CategoryDetectionResponse.category = ''cafe'', confidence = 0.95, method_tag = ''rules''\<rparr>"
  by (simp add: CategoryDetector_detect_def CATEGORY_RULES_def CategoryDetection_new_def
      detect_category_simple_def detect_category_def CATEGORY_RULES_main_def)

subsection \<open>C10: bounds of the confidence and the score\<close>




end
